theory Spec2Isabelle
  imports Main "HOL-Library.Sublist"
begin

section \<open>Data model\<close>

text \<open>
  The embedding follows \<^verbatim>\<open>src/main/MethodAccessController.js\<close> and
  \<^verbatim>\<open>src/main/default-security-policy.js\<close>.

  A strategy is whatever JavaScript value sits in the \<^verbatim>\<open>strategy\<close> field of an entry, or
  whatever \<^verbatim>\<open>require\<close> returns for a string strategy. The code only looks at its
  \<^verbatim>\<open>typeof\<close>: \<^verbatim>\<open>'boolean'\<close>, \<^verbatim>\<open>'string'\<close>, \<^verbatim>\<open>'function'\<close>, or anything else (an
  object, a number, \<^verbatim>\<open>undefined\<close>, ...).

  A function strategy is called with \<^verbatim>\<open>{ role, clazz, method, data }\<close>. It either throws
  (\<open>Inl\<close>) or returns a value, which the code uses only through its truthiness
  (\<^verbatim>\<open>permit && permitted\<close>, \<^verbatim>\<open>!permit && !permitted\<close>); \<open>Inr b\<close> is that truthiness.
  A function strategy is a pure function of its argument: it reads and changes no state.
  The type \<open>'d\<close> is the type of the contextual \<^verbatim>\<open>data\<close>, \<open>'x\<close> the type of the values thrown
  by strategies and by \<^verbatim>\<open>require\<close>.
\<close>

datatype ('d, 'x) strategy =
    is_boolean: JBoolean bool
  | is_string: JString string
  | is_function: JFunction "string \<Rightarrow> string \<Rightarrow> string \<Rightarrow> 'd \<Rightarrow> 'x + bool"
  | JOther

text \<open>
  What a call can throw: the controller's own error (\<^verbatim>\<open>strategyNotAFunctionError\<close>, code
  \<^verbatim>\<open>E_STRATEGY_NOT_A_FUNCTION\<close>), the \<^verbatim>\<open>TypeError\<close> of reading \<^verbatim>\<open>it.strategy\<close> of a
  \<^verbatim>\<open>null\<close> entry, or a value thrown by a strategy function or by \<^verbatim>\<open>require\<close>.
\<close>

datatype 'x error = E_STRATEGY_NOT_A_FUNCTION | TypeError | Thrown 'x

text \<open>
  A regular expression is an object with a mutable \<^verbatim>\<open>lastIndex\<close>. The state of a run is the
  \<^verbatim>\<open>lastIndex\<close> of every \<^verbatim>\<open>RegExp\<close> object, by the identity of the object; two matchers
  with the same identity are the same object.
\<close>

type_synonym heap = "nat \<Rightarrow> nat"

text \<open>
  \<open>matcher re s i\<close> is the end index of the match of the pattern in \<open>s\<close> that starts at
  index \<open>i\<close>, if there is one. \<open>global\<close> and \<open>sticky\<close> are the flags \<^verbatim>\<open>g\<close> and \<^verbatim>\<open>y\<close>.
\<close>

record RegExp =
  ident :: nat
  global :: bool
  sticky :: bool
  matcher :: "string \<Rightarrow> nat \<Rightarrow> nat option"

text \<open>
  The search loop of \<^verbatim>\<open>RegExp.prototype.exec\<close>: \<open>scan f n i\<close> tries the \<open>n\<close> start indices
  \<open>i\<close>, \<open>i + 1\<close>, ... in turn and stops at the first match.
\<close>

fun scan :: "(nat \<Rightarrow> nat option) \<Rightarrow> nat \<Rightarrow> nat \<Rightarrow> nat option" where
  "scan f 0 i = None"
| "scan f (Suc n) i = (case f i of Some e \<Rightarrow> Some e | None \<Rightarrow> scan f n (Suc i))"

text \<open>
  \<^verbatim>\<open>RegExp.prototype.test\<close>. Without \<^verbatim>\<open>g\<close> and \<^verbatim>\<open>y\<close> the search starts at index 0, whatever
  \<^verbatim>\<open>lastIndex\<close> is, and \<^verbatim>\<open>lastIndex\<close> is not written. With one of them the search starts at
  \<^verbatim>\<open>lastIndex\<close> (with \<^verbatim>\<open>y\<close> only a match at \<^verbatim>\<open>lastIndex\<close> itself counts); a match sets
  \<^verbatim>\<open>lastIndex\<close> to its end index, a failure sets it to 0. A start index beyond the end of
  the string is a failure.
\<close>

definition test :: "RegExp \<Rightarrow> string \<Rightarrow> heap \<Rightarrow> bool \<times> heap" where
  "test re s h =
     (let flagged = (global re \<or> sticky re);
          lastIndex = (if flagged then h (ident re) else 0);
          r = (if sticky re
               then (if lastIndex \<le> length s then matcher re s lastIndex else None)
               else scan (matcher re s) (Suc (length s) - lastIndex) lastIndex)
      in case r of
           None \<Rightarrow> (False, if flagged then h(ident re := 0) else h)
         | Some e \<Rightarrow> (True, if flagged then h(ident re := e) else h))"

record ('d, 'x) SecurityPolicyEntry =
  roles :: RegExp
  classes :: RegExp
  methods :: RegExp
  strategy :: "('d, 'x) strategy"

text \<open>
  A policy is an array of entries; an element may be \<^verbatim>\<open>null\<close> or \<^verbatim>\<open>undefined\<close> (\<open>None\<close>),
  which the optional chaining \<^verbatim>\<open>it?.roles\<close> of \<^verbatim>\<open>_findEntries\<close> guards against.
\<close>

type_synonym ('d, 'x) SecurityPolicy = "('d, 'x) SecurityPolicyEntry option list"

record ('d, 'x) MethodAccessController =
  policy :: "('d, 'x) SecurityPolicy"

text \<open>
  The \<^verbatim>\<open>role\<close> of a request: a string, or an array (\<^verbatim>\<open>Array.isArray\<close>) whose elements are
  handed to the same method again.
\<close>

datatype role_arg = Role string | Roles "role_arg list"

text \<open>The module system: what \<^verbatim>\<open>require(name)\<close> returns or throws.\<close>

type_synonym ('d, 'x) require = "string \<Rightarrow> 'x + ('d, 'x) strategy"

section \<open>The default security policy\<close>

text \<open>
  \<^verbatim>\<open>/^.*$/\<close> has no flags: \<^verbatim>\<open>^\<close> and \<^verbatim>\<open>$\<close> match only at the two ends of the input, and
  \<^verbatim>\<open>.\<close> matches every character but a line terminator (LF, CR, U+2028, U+2029; the
  last two are outside the 8-bit characters of \<open>string\<close>). So the pattern matches at
  index 0 only, up to the end of a string without line terminators. The three literals
  of the default policy are three objects.
\<close>

definition LineTerminator :: "char \<Rightarrow> bool" where
  "LineTerminator c = (c = CHR 0x0A \<or> c = CHR 0x0D)"

definition any_line :: "nat \<Rightarrow> RegExp" where
  "any_line i =
     \<lparr>ident = i, global = False, sticky = False,
      matcher = (\<lambda>s j. if j = 0 \<and> list_all (\<lambda>c. \<not> LineTerminator c) s
                        then Some (length s) else None)\<rparr>"

definition DEFAULT_SECURITY_POLICY :: "('d, 'x) SecurityPolicy" where
  "DEFAULT_SECURITY_POLICY =
     [Some \<lparr>roles = any_line 0, classes = any_line 1, methods = any_line 2,
            strategy = JBoolean True\<rparr>]"

section \<open>The controller\<close>

text \<open>\<^verbatim>\<open>policy = policy || DEFAULT_SECURITY_POLICY\<close>: an array, even an empty one, is truthy.\<close>

definition constructor ::
  "('d, 'x) SecurityPolicy option \<Rightarrow> ('d, 'x) MethodAccessController" where
  "constructor p =
     \<lparr>policy = (case p of None \<Rightarrow> DEFAULT_SECURITY_POLICY | Some pol \<Rightarrow> pol)\<rparr>"

text \<open>
  The callback of \<^verbatim>\<open>_findEntries\<close>,
  \<^verbatim>\<open>it?.roles.test(role) && it?.classes.test(clazz) && it?.methods.test(method)\<close>: a later
  \<^verbatim>\<open>test\<close> runs only when the earlier ones answered \<^verbatim>\<open>true\<close>.
\<close>

definition entry_test ::
  "('d, 'x) SecurityPolicyEntry option \<Rightarrow> string \<Rightarrow> string \<Rightarrow> string \<Rightarrow> heap \<Rightarrow>
   bool \<times> heap" where
  "entry_test it role clazz method h =
     (case it of
        None \<Rightarrow> (False, h)
      | Some e \<Rightarrow>
          (case test (roles e) role h of
             (r, h1) \<Rightarrow>
               if \<not> r then (False, h1)
               else (case test (classes e) clazz h1 of
                       (c, h2) \<Rightarrow>
                         if \<not> c then (False, h2) else test (methods e) method h2)))"

text \<open>\<^verbatim>\<open>Array.prototype.filter\<close> with a callback that changes the state.\<close>

fun filter_in_order :: "('a \<Rightarrow> 's \<Rightarrow> bool \<times> 's) \<Rightarrow> 'a list \<Rightarrow> 's \<Rightarrow> 'a list \<times> 's" where
  "filter_in_order p [] h = ([], h)"
| "filter_in_order p (x # xs) h =
     (case p x h of
        (b, h1) \<Rightarrow>
          (case filter_in_order p xs h1 of
             (ys, h2) \<Rightarrow> (if b then x # ys else ys, h2)))"

text \<open>\<^verbatim>\<open>_findEntries\<close>.\<close>

definition u_findEntries ::
  "('d, 'x) MethodAccessController \<Rightarrow> string \<Rightarrow> string \<Rightarrow> string \<Rightarrow> heap \<Rightarrow>
   ('d, 'x) SecurityPolicyEntry option list \<times> heap" where
  "u_findEntries ctl role clazz method h =
     filter_in_order (\<lambda>it. entry_test it role clazz method) (policy ctl) h"

text \<open>
  Line 88, \<^verbatim>\<open>(typeof it.strategy === 'string') ? require(it.strategy) : it.strategy\<close>:
  a string strategy is a module name, and \<^verbatim>\<open>require\<close> may throw.
\<close>

definition resolve :: "('d, 'x) require \<Rightarrow> ('d, 'x) strategy \<Rightarrow> 'x + ('d, 'x) strategy" where
  "resolve require s = (case s of JString name \<Rightarrow> require name | _ \<Rightarrow> Inr s)"

text \<open>
  The body of the loop of \<^verbatim>\<open>_interrogate\<close> for one entry: it goes on to the next entry,
  returns, or throws.
\<close>

datatype 'x outcome = Continue | Return bool | Throw "'x error"

definition examine ::
  "('d, 'x) require \<Rightarrow> ('d, 'x) SecurityPolicyEntry option \<Rightarrow>
   string \<Rightarrow> string \<Rightarrow> string \<Rightarrow> 'd \<Rightarrow> bool \<Rightarrow> 'x outcome" where
  "examine require it role clazz method data permit =
     (case it of
        None \<Rightarrow> Throw TypeError
      | Some e \<Rightarrow>
          (case strategy e of
             JBoolean b \<Rightarrow> if b = permit then Return True else Continue
           | _ \<Rightarrow>
               (case resolve require (strategy e) of
                  Inl x \<Rightarrow> Throw (Thrown x)
                | Inr (JFunction f) \<Rightarrow>
                    (case f role clazz method data of
                       Inl x \<Rightarrow> Throw (Thrown x)
                     | Inr permitted \<Rightarrow>
                         if permit \<and> permitted then Return True
                         else if \<not> permit \<and> \<not> permitted then Return False
                         else Continue)
                | Inr _ \<Rightarrow> Throw E_STRATEGY_NOT_A_FUNCTION)))"

fun u_interrogate ::
  "('d, 'x) require \<Rightarrow> ('d, 'x) SecurityPolicyEntry option list \<Rightarrow>
   string \<Rightarrow> string \<Rightarrow> string \<Rightarrow> 'd \<Rightarrow> bool \<Rightarrow> 'x error + bool" where
  "u_interrogate require [] role clazz method data permit = Inr False"
| "u_interrogate require (it # entries) role clazz method data permit =
     (case examine require it role clazz method data permit of
        Continue \<Rightarrow> u_interrogate require entries role clazz method data permit
      | Return b \<Rightarrow> Inr b
      | Throw e \<Rightarrow> Inl e)"

definition u_permits ::
  "('d, 'x) require \<Rightarrow> ('d, 'x) SecurityPolicyEntry option list \<Rightarrow>
   string \<Rightarrow> string \<Rightarrow> string \<Rightarrow> 'd \<Rightarrow> 'x error + bool" where
  "u_permits require entries role clazz method data =
     u_interrogate require entries role clazz method data True"

definition u_denies ::
  "('d, 'x) require \<Rightarrow> ('d, 'x) SecurityPolicyEntry option list \<Rightarrow>
   string \<Rightarrow> string \<Rightarrow> string \<Rightarrow> 'd \<Rightarrow> 'x error + bool" where
  "u_denies require entries role clazz method data =
     u_interrogate require entries role clazz method data False"

text \<open>
  \<^verbatim>\<open>denies\<close>. For an array, \<^verbatim>\<open>role.map(it => this.denies(...))\<close> calls \<^verbatim>\<open>denies\<close> on
  every element in order (\<open>denies_map\<close>; the first element that throws ends the call),
  then \<^verbatim>\<open>results.includes(true)\<close>. A call returns its result and the state it leaves.
\<close>

fun denies ::
    "('d, 'x) require \<Rightarrow> ('d, 'x) MethodAccessController \<Rightarrow> role_arg \<Rightarrow>
     string \<Rightarrow> string \<Rightarrow> 'd \<Rightarrow> heap \<Rightarrow> ('x error + bool) \<times> heap"
  and denies_map ::
    "('d, 'x) require \<Rightarrow> ('d, 'x) MethodAccessController \<Rightarrow> role_arg list \<Rightarrow>
     string \<Rightarrow> string \<Rightarrow> 'd \<Rightarrow> heap \<Rightarrow> ('x error + bool list) \<times> heap" where
  "denies require ctl (Roles role) clazz method data h =
     (case denies_map require ctl role clazz method data h of
        (Inl e, h1) \<Rightarrow> (Inl e, h1)
      | (Inr results, h1) \<Rightarrow> (Inr (True \<in> set results), h1))"
| "denies require ctl (Role role) clazz method data h =
     (case u_findEntries ctl role clazz method h of
        (entries, h1) \<Rightarrow> (u_denies require entries role clazz method data, h1))"
| "denies_map require ctl [] clazz method data h = (Inr [], h)"
| "denies_map require ctl (it # role) clazz method data h =
     (case denies require ctl it clazz method data h of
        (Inl e, h1) \<Rightarrow> (Inl e, h1)
      | (Inr r, h1) \<Rightarrow>
          (case denies_map require ctl role clazz method data h1 of
             (Inl e, h2) \<Rightarrow> (Inl e, h2)
           | (Inr results, h2) \<Rightarrow> (Inr (r # results), h2)))"

text \<open>
  \<^verbatim>\<open>permits\<close>. For an array, \<^verbatim>\<open>!role.map(denies).includes(true) && role.map(permits).includes(true)\<close>:
  the second map runs only when no element denies. For a single role,
  \<^verbatim>\<open>!this._denies(...) && this._permits(...)\<close> over the entries found once.
\<close>

fun permits ::
    "('d, 'x) require \<Rightarrow> ('d, 'x) MethodAccessController \<Rightarrow> role_arg \<Rightarrow>
     string \<Rightarrow> string \<Rightarrow> 'd \<Rightarrow> heap \<Rightarrow> ('x error + bool) \<times> heap"
  and permits_map ::
    "('d, 'x) require \<Rightarrow> ('d, 'x) MethodAccessController \<Rightarrow> role_arg list \<Rightarrow>
     string \<Rightarrow> string \<Rightarrow> 'd \<Rightarrow> heap \<Rightarrow> ('x error + bool list) \<times> heap" where
  "permits require ctl (Roles role) clazz method data h =
     (case denies_map require ctl role clazz method data h of
        (Inl e, h1) \<Rightarrow> (Inl e, h1)
      | (Inr denied, h1) \<Rightarrow>
          if True \<in> set denied then (Inr False, h1)
          else (case permits_map require ctl role clazz method data h1 of
                  (Inl e, h2) \<Rightarrow> (Inl e, h2)
                | (Inr permitted, h2) \<Rightarrow> (Inr (True \<in> set permitted), h2)))"
| "permits require ctl (Role role) clazz method data h =
     (case u_findEntries ctl role clazz method h of
        (entries, h1) \<Rightarrow>
          (case u_denies require entries role clazz method data of
             Inl e \<Rightarrow> (Inl e, h1)
           | Inr denied \<Rightarrow>
               if denied then (Inr False, h1)
               else (u_permits require entries role clazz method data, h1)))"
| "permits_map require ctl [] clazz method data h = (Inr [], h)"
| "permits_map require ctl (it # role) clazz method data h =
     (case permits require ctl it clazz method data h of
        (Inl e, h1) \<Rightarrow> (Inl e, h1)
      | (Inr r, h1) \<Rightarrow>
          (case permits_map require ctl role clazz method data h1 of
             (Inl e, h2) \<Rightarrow> (Inl e, h2)
           | (Inr results, h2) \<Rightarrow> (Inr (r # results), h2)))"

text \<open>\<^verbatim>\<open>grants\<close> is the deprecated name of \<^verbatim>\<open>permits\<close>.\<close>

definition grants ::
  "('d, 'x) require \<Rightarrow> ('d, 'x) MethodAccessController \<Rightarrow> role_arg \<Rightarrow>
   string \<Rightarrow> string \<Rightarrow> 'd \<Rightarrow> heap \<Rightarrow> ('x error + bool) \<times> heap" where
  "grants require ctl role clazz method data h =
     permits require ctl role clazz method data h"

section \<open>Matchers without flags\<close>

text \<open>
  The pattern of \<open>re\<close> matches somewhere in \<open>s\<close>: the search from index 0 finds a match.
  This is what \<^verbatim>\<open>test\<close> answers for a regular expression without the flags \<^verbatim>\<open>g\<close> and \<^verbatim>\<open>y\<close>.
\<close>

definition matches :: "RegExp \<Rightarrow> string \<Rightarrow> bool" where
  "matches re s = (scan (matcher re s) (Suc (length s)) 0 \<noteq> None)"

text \<open>No matcher of the policy carries the flag \<^verbatim>\<open>g\<close> or the flag \<^verbatim>\<open>y\<close>.\<close>

definition no_flags :: "('d, 'x) MethodAccessController \<Rightarrow> bool" where
  "no_flags ctl =
     list_all (\<lambda>it. case it of
                  None \<Rightarrow> True
                | Some e \<Rightarrow>
                    \<not> global (roles e) \<and> \<not> sticky (roles e) \<and>
                    \<not> global (classes e) \<and> \<not> sticky (classes e) \<and>
                    \<not> global (methods e) \<and> \<not> sticky (methods e))
       (policy ctl)"

section \<open>Mapping over an array\<close>

text \<open>
  \<^verbatim>\<open>Array.prototype.map\<close> with a callback that changes the state and may throw: the
  results of the calls in order, or the first error, and the state left. \<open>denies_map\<close> and
  \<open>permits_map\<close> are instances. \<open>collect\<close> is the same for a callback that leaves the state
  alone.
\<close>

fun collect_in_order ::
  "('a \<Rightarrow> 's \<Rightarrow> ('e + 'b) \<times> 's) \<Rightarrow> 'a list \<Rightarrow> 's \<Rightarrow> ('e + 'b list) \<times> 's" where
  "collect_in_order f [] h = (Inr [], h)"
| "collect_in_order f (x # xs) h =
     (case f x h of
        (Inl e, h1) \<Rightarrow> (Inl e, h1)
      | (Inr r, h1) \<Rightarrow>
          (case collect_in_order f xs h1 of
             (Inl e, h2) \<Rightarrow> (Inl e, h2)
           | (Inr rs, h2) \<Rightarrow> (Inr (r # rs), h2)))"

fun collect :: "('a \<Rightarrow> 'e + 'b) \<Rightarrow> 'a list \<Rightarrow> 'e + 'b list" where
  "collect f [] = Inr []"
| "collect f (x # xs) =
     (case f x of
        Inl e \<Rightarrow> Inl e
      | Inr r \<Rightarrow> (case collect f xs of Inl e \<Rightarrow> Inl e | Inr rs \<Rightarrow> Inr (r # rs)))"

section \<open>Policies of the unit tests, and others\<close>

text \<open>A controller just made: every \<^verbatim>\<open>lastIndex\<close> is 0.\<close>

definition fresh :: heap where
  "fresh i = 0"

text \<open>
  \<^verbatim>\<open>new RegExp(`^${name}$`)\<close> for a name of letters only: the pattern matches at index 0
  of the string \<open>name\<close> and nowhere else. \<open>exactly_g\<close> is the same pattern with the flag
  \<^verbatim>\<open>g\<close>, as in \<^verbatim>\<open>/^A$/g\<close>.
\<close>

definition exactly :: "nat \<Rightarrow> string \<Rightarrow> RegExp" where
  "exactly i name =
     \<lparr>ident = i, global = False, sticky = False,
      matcher = (\<lambda>s j. if j = 0 \<and> s = name then Some (length name) else None)\<rparr>"

definition exactly_g :: "nat \<Rightarrow> string \<Rightarrow> RegExp" where
  "exactly_g i name =
     \<lparr>ident = i, global = True, sticky = False,
      matcher = (\<lambda>s j. if j = 0 \<and> s = name then Some (length name) else None)\<rparr>"

text \<open>A module system in which every \<^verbatim>\<open>require\<close> throws.\<close>

definition no_modules :: "('d, unit) require" where
  "no_modules name = Inl ()"

text \<open>A module system in which every module exports \<^verbatim>\<open>true\<close>.\<close>

definition true_modules :: "('d, unit) require" where
  "true_modules name = Inr (JBoolean True)"

text \<open>
  The \<open>n\<close>-th entry of a policy, for one role, class and method; its three matchers are
  objects of their own.
\<close>

definition entry_for ::
  "nat \<Rightarrow> string \<Rightarrow> string \<Rightarrow> string \<Rightarrow> ('d, 'x) strategy \<Rightarrow>
   ('d, 'x) SecurityPolicyEntry" where
  "entry_for n r c m s =
     \<lparr>roles = exactly (3 * n) r, classes = exactly (3 * n + 1) c,
      methods = exactly (3 * n + 2) m, strategy = s\<rparr>"

text \<open>The \<open>n\<close>-th entry, for one role on every class and method (\<^verbatim>\<open>/^.*$/\<close>).\<close>

definition entry_anywhere ::
  "nat \<Rightarrow> string \<Rightarrow> ('d, 'x) strategy \<Rightarrow> ('d, 'x) SecurityPolicyEntry" where
  "entry_anywhere n r s =
     \<lparr>roles = exactly (3 * n) r, classes = any_line (3 * n + 1),
      methods = any_line (3 * n + 2), strategy = s\<rparr>"

text \<open>The same with the flag \<^verbatim>\<open>g\<close> on the matcher of the roles.\<close>

definition entry_anywhere_g ::
  "nat \<Rightarrow> string \<Rightarrow> ('d, 'x) strategy \<Rightarrow> ('d, 'x) SecurityPolicyEntry" where
  "entry_anywhere_g n r s =
     \<lparr>roles = exactly_g (3 * n) r, classes = any_line (3 * n + 1),
      methods = any_line (3 * n + 2), strategy = s\<rparr>"

text \<open>\<^verbatim>\<open>should deny with a single denial\<close>: strategies true, true, false.\<close>

definition cowboy_policy :: "(unit, unit) SecurityPolicy" where
  "cowboy_policy =
     [Some (entry_for 0 ''Cowboy'' ''Foo'' ''bar'' (JBoolean True)),
      Some (entry_for 1 ''Cowboy'' ''Foo'' ''bar'' (JBoolean True)),
      Some (entry_for 2 ''Cowboy'' ''Foo'' ''bar'' (JBoolean False))]"

text \<open>\<^verbatim>\<open>should grant when one role of many is granted\<close>.\<close>

definition teller_manager_policy :: "(unit, unit) SecurityPolicy" where
  "teller_manager_policy =
     [Some (entry_anywhere 0 ''Manager'' (JBoolean True)),
      Some (entry_for 1 ''Teller'' ''Foo'' ''snafu'' (JBoolean True))]"

text \<open>\<^verbatim>\<open>should deny when a role among many is denied\<close>.\<close>

definition teller_dummy_policy :: "(unit, unit) SecurityPolicy" where
  "teller_dummy_policy =
     [Some (entry_anywhere 0 ''Dummy'' (JBoolean False)),
      Some (entry_for 1 ''Teller'' ''Foo'' ''bar'' (JBoolean True))]"

text \<open>
  \<^verbatim>\<open>should work with custom strategy\<close>:
  \<^verbatim>\<open>it => it?.role === manager || it?.role === owner\<close>.
\<close>

definition manager_or_owner :: "string \<Rightarrow> string \<Rightarrow> string \<Rightarrow> unit \<Rightarrow> unit + bool" where
  "manager_or_owner role clazz method data = Inr (role = ''Manager'' \<or> role = ''Owner'')"

definition custom_entry :: "(unit, unit) SecurityPolicyEntry" where
  "custom_entry =
     \<lparr>roles = any_line 0, classes = exactly 1 ''Account'', methods = exactly 2 ''close'',
      strategy = JFunction manager_or_owner\<rparr>"

text \<open>Further policies: a value that is no function, and a module name.\<close>

definition denied_then_broken :: "(unit, unit) SecurityPolicy" where
  "denied_then_broken =
     [Some (entry_for 0 ''A'' ''Foo'' ''bar'' (JBoolean False)),
      Some (entry_for 1 ''A'' ''Foo'' ''bar'' JOther)]"

definition a_denied_b_broken :: "(unit, unit) SecurityPolicy" where
  "a_denied_b_broken =
     [Some (entry_for 0 ''A'' ''Foo'' ''bar'' (JBoolean False)),
      Some (entry_for 1 ''B'' ''Foo'' ''bar'' JOther)]"

definition by_reference :: "(unit, unit) SecurityPolicy" where
  "by_reference = [Some (entry_for 0 ''A'' ''Foo'' ''bar'' (JString ''./strategy''))]"

definition custom_then_denied :: "(unit, unit) SecurityPolicy" where
  "custom_then_denied =
     [Some custom_entry, Some (entry_for 1 ''Teller'' ''Account'' ''close'' (JBoolean False))]"

text \<open>
  Policies with the flag \<^verbatim>\<open>g\<close>: \<^verbatim>\<open>/^A$/g\<close> with strategy \<^verbatim>\<open>true\<close>, and \<^verbatim>\<open>/^A$/g\<close> with
  strategy \<^verbatim>\<open>false\<close> before \<^verbatim>\<open>/^A$/\<close> with strategy \<^verbatim>\<open>true\<close>.
\<close>

definition g_permitted :: "(unit, unit) SecurityPolicy" where
  "g_permitted = [Some (entry_anywhere_g 0 ''A'' (JBoolean True))]"

definition g_denied_then_permitted :: "(unit, unit) SecurityPolicy" where
  "g_denied_then_permitted =
     [Some (entry_anywhere_g 0 ''A'' (JBoolean False)),
      Some (entry_anywhere 1 ''A'' (JBoolean True))]"

section \<open>Auxiliary facts\<close>

subsection \<open>Matching\<close>

lemma scan_None: "\<forall>j\<ge>i. f j = None \<Longrightarrow> scan f n i = None"
  by (induction n arbitrary: i) simp_all

lemma scan_anchored:
  "\<forall>j>0. f j = None \<Longrightarrow> scan f n i = (if i = 0 \<and> 0 < n then f 0 else None)"
proof (cases n)
  case 0
  then show ?thesis by simp
next
  case (Suc k)
  assume a: "\<forall>j>0. f j = None"
  then have "scan f k (Suc i) = None" by (intro scan_None) auto
  moreover from a have "0 < i \<Longrightarrow> f i = None" by simp
  ultimately show ?thesis using Suc by (auto split: option.splits)
qed


lemma test_no_flags:
  "\<not> global re \<Longrightarrow> \<not> sticky re \<Longrightarrow> test re s h = (matches re s, h)"
  by (auto simp: test_def matches_def Let_def split: option.splits)

lemma test_exactly: "test (exactly i name) s h = (s = name, h)"
  by (simp add: test_def exactly_def Let_def scan_anchored)

lemma test_any_line: "test (any_line i) s h = (list_all (\<lambda>c. \<not> LineTerminator c) s, h)"
  by (simp add: test_def any_line_def Let_def scan_anchored)

lemma test_exactly_g:
  "test (exactly_g i name) s h =
     (if h i = 0 \<and> s = name then (True, h(i := length name)) else (False, h(i := 0)))"
  by (simp add: test_def exactly_g_def Let_def scan_anchored)





subsection \<open>Finding the entries\<close>

lemma filter_in_order_pure:
  "\<forall>x\<in>set xs. \<forall>h. p x h = (q x, h) \<Longrightarrow> filter_in_order p xs h = (filter q xs, h)"
  by (induction xs arbitrary: h) simp_all

lemma filter_in_order_Cons:
  "fst (filter_in_order p (x # xs) h) =
     (if fst (p x h) then x # fst (filter_in_order p xs (snd (p x h)))
      else fst (filter_in_order p xs (snd (p x h))))"
  by (simp split: prod.splits)


lemma filter_in_order_true:
  "x \<in> set (fst (filter_in_order p xs h)) \<Longrightarrow> x \<in> set xs \<and> (\<exists>h1. fst (p x h1))"
proof (induction xs arbitrary: h)
  case Nil
  then show ?case by simp
next
  case (Cons a xs)
  show ?case
  proof (cases "fst (p a h) \<and> x = a")
    case True
    then show ?thesis by auto
  next
    case False
    with Cons.prems have "x \<in> set (fst (filter_in_order p xs (snd (p a h))))"
      by (auto simp add: filter_in_order_Cons simp del: filter_in_order.simps(2) split: if_splits)
    from Cons.IH[OF this] show ?thesis by simp
  qed
qed

lemma findEntries_Some:
  "it \<in> set (fst (u_findEntries ctl r c m h)) \<Longrightarrow> \<exists>e. it = Some e"
proof -
  assume "it \<in> set (fst (u_findEntries ctl r c m h))"
  then have "it \<in> set (fst (filter_in_order (\<lambda>it. entry_test it r c m) (policy ctl) h))"
    by (simp add: u_findEntries_def)
  from filter_in_order_true[OF this] obtain h1 where "fst (entry_test it r c m h1)"
    by blast
  then show ?thesis by (cases it) (simp_all add: entry_test_def)
qed

lemma findEntries_no_flags:
  assumes "no_flags ctl"
  shows "u_findEntries ctl role clazz method h =
     (filter (\<lambda>it. \<exists>e. it = Some e \<and> matches (roles e) role \<and> matches (classes e) clazz \<and>
                   matches (methods e) method) (policy ctl), h)"
proof -
  have "\<forall>it\<in>set (policy ctl). \<forall>h. entry_test it role clazz method h =
      ((\<exists>e. it = Some e \<and> matches (roles e) role \<and> matches (classes e) clazz \<and>
                   matches (methods e) method), h)"
  proof (intro ballI allI)
    fix it h assume "it \<in> set (policy ctl)"
    with assms have f: "case it of None \<Rightarrow> True
                | Some e \<Rightarrow>
                    \<not> global (roles e) \<and> \<not> sticky (roles e) \<and>
                    \<not> global (classes e) \<and> \<not> sticky (classes e) \<and>
                    \<not> global (methods e) \<and> \<not> sticky (methods e)"
      by (simp add: no_flags_def list_all_iff)
    show "entry_test it role clazz method h =
      ((\<exists>e. it = Some e \<and> matches (roles e) role \<and> matches (classes e) clazz \<and>
                   matches (methods e) method), h)"
    proof (cases it)
      case None
      then show ?thesis by (simp add: entry_test_def)
    next
      case (Some e)
      with f show ?thesis by (simp add: entry_test_def test_no_flags)
    qed
  qed
  then show ?thesis unfolding u_findEntries_def by (rule filter_in_order_pure)
qed



subsection \<open>Mapping over the roles of an array\<close>

lemma collect_Inr: "collect f xs = Inr bs \<longleftrightarrow> map f xs = map Inr bs"
proof (induction xs arbitrary: bs)
  case Nil
  show ?case by auto
next
  case (Cons a xs)
  show ?case
  proof (cases "f a")
    case (Inl e)
    then show ?thesis by (cases bs) auto
  next
    case (Inr b)
    show ?thesis
    proof (cases "collect f xs")
      case (Inl e)
      with Inr Cons.IH show ?thesis by (cases bs) auto
    next
      case r: (Inr bs0)
      with Inr Cons.IH show ?thesis by (cases bs) auto
    qed
  qed
qed

lemma collect_Inl:
  "collect f xs = Inl e \<longleftrightarrow>
     (\<exists>pre it post. xs = pre @ it # post \<and> (\<forall>x\<in>set pre. \<exists>b. f x = Inr b) \<and> f it = Inl e)"
proof (induction xs)
  case Nil
  show ?case by simp
next
  case (Cons a xs)
  show ?case
  proof (cases "f a")
    case (Inl e')
    have "(\<exists>pre it post. a # xs = pre @ it # post \<and> (\<forall>x\<in>set pre. \<exists>b. f x = Inr b) \<and> f it = Inl e) \<longleftrightarrow> e' = e"
    proof
      assume "\<exists>pre it post. a # xs = pre @ it # post \<and> (\<forall>x\<in>set pre. \<exists>b. f x = Inr b) \<and> f it = Inl e"
      then obtain pre it post where h: "a # xs = pre @ it # post" "\<forall>x\<in>set pre. \<exists>b. f x = Inr b" "f it = Inl e"
        by blast
      show "e' = e"
      proof (cases pre)
        case Nil
        with h Inl show ?thesis by simp
      next
        case (Cons p ps)
        with h Inl show ?thesis by auto
      qed
    next
      assume "e' = e"
      with Inl have "a # xs = [] @ a # xs \<and> (\<forall>x\<in>set []. \<exists>b. f x = Inr b) \<and> f a = Inl e" by simp
      then show "\<exists>pre it post. a # xs = pre @ it # post \<and> (\<forall>x\<in>set pre. \<exists>b. f x = Inr b) \<and> f it = Inl e"
        by blast
    qed
    with Inl show ?thesis by simp
  next
    case (Inr b)
    have "(\<exists>pre it post. a # xs = pre @ it # post \<and> (\<forall>x\<in>set pre. \<exists>b. f x = Inr b) \<and> f it = Inl e) \<longleftrightarrow>
          (\<exists>pre it post. xs = pre @ it # post \<and> (\<forall>x\<in>set pre. \<exists>b. f x = Inr b) \<and> f it = Inl e)"
      (is "?L \<longleftrightarrow> ?R")
    proof
      assume ?L
      then obtain pre it post where h: "a # xs = pre @ it # post" "\<forall>x\<in>set pre. \<exists>b. f x = Inr b" "f it = Inl e"
        by blast
      show ?R
      proof (cases pre)
        case Nil
        with h Inr show ?thesis by simp
      next
        case (Cons p ps)
        with h have "xs = ps @ it # post \<and> (\<forall>x\<in>set ps. \<exists>b. f x = Inr b) \<and> f it = Inl e" by simp
        then show ?thesis by blast
      qed
    next
      assume ?R
      then obtain pre it post where h: "xs = pre @ it # post" "\<forall>x\<in>set pre. \<exists>b. f x = Inr b" "f it = Inl e"
        by blast
      with Inr have "a # xs = (a # pre) @ it # post \<and> (\<forall>x\<in>set (a # pre). \<exists>b. f x = Inr b) \<and> f it = Inl e"
        by simp
      then show ?L by blast
    qed
    moreover have "collect f (a # xs) = Inl e \<longleftrightarrow> collect f xs = Inl e"
      using Inr by (simp split: sum.splits)
    ultimately show ?thesis using Cons.IH by blast
  qed
qed

lemma Inr_bool_cases: "\<exists>b. v = Inr b \<Longrightarrow> (v \<noteq> Inr True) = (v = Inr False)"
  by auto

lemma all_Inr_map:
  "(\<forall>x\<in>set xs. \<exists>b. f x = Inr b) \<longleftrightarrow> (\<exists>bs. map f xs = map Inr bs)"
proof (induction xs)
  case Nil
  show ?case by simp
next
  case (Cons a xs)
  show ?case
  proof
    assume h: "\<forall>x\<in>set (a # xs). \<exists>b. f x = Inr b"
    then obtain b where b: "f a = Inr b" by auto
    from h Cons.IH obtain bs where "map f xs = map Inr bs" by auto
    with b have "map f (a # xs) = map Inr (b # bs)" by simp
    then show "\<exists>bs. map f (a # xs) = map Inr bs" by blast
  next
    assume "\<exists>bs. map f (a # xs) = map Inr bs"
    then obtain bs where h: "map f (a # xs) = map Inr bs" by blast
    then obtain b bs' where "bs = b # bs'" by (cases bs) auto
    with h have "f a = Inr b" "map f xs = map Inr bs'" by auto
    with Cons.IH show "\<forall>x\<in>set (a # xs). \<exists>b. f x = Inr b" by auto
  qed
qed

lemma map_Inr_member:
  assumes h: "map f xs = map Inr bs"
  shows "(b \<in> set bs) = (\<exists>x\<in>set xs. f x = Inr b)"
proof -
  have "set (map f xs) = set (map Inr bs)" using h by simp
  then have img: "f ` set xs = Inr ` set bs" by simp
  have "(b \<in> set bs) \<longleftrightarrow> Inr b \<in> f ` set xs" unfolding img by auto
  also have "\<dots> \<longleftrightarrow> (\<exists>x\<in>set xs. f x = Inr b)" by force
  finally show ?thesis .
qed

lemma collect_total:
  "\<forall>x\<in>set xs. \<exists>b. f x = Inr b \<Longrightarrow>
   \<exists>bs. collect f xs = Inr bs \<and> (\<forall>b. (b \<in> set bs) = (\<exists>x\<in>set xs. f x = Inr b))"
proof -
  assume "\<forall>x\<in>set xs. \<exists>b. f x = Inr b"
  then obtain bs where h: "map f xs = map Inr bs" using all_Inr_map[of xs f] by blast
  then have "collect f xs = Inr bs" by (simp add: collect_Inr)
  with map_Inr_member[OF h] show ?thesis by blast
qed

lemma collect_Inr_member:
  "collect f xs = Inr bs \<Longrightarrow>
   (\<forall>x\<in>set xs. \<exists>b. f x = Inr b) \<and> (\<forall>b. (b \<in> set bs) = (\<exists>x\<in>set xs. f x = Inr b))"
proof -
  assume "collect f xs = Inr bs"
  then have h: "map f xs = map Inr bs" by (simp add: collect_Inr)
  then have "\<forall>x\<in>set xs. \<exists>b. f x = Inr b" using all_Inr_map[of xs f] by blast
  with map_Inr_member[OF h] show ?thesis by blast
qed

lemma collect_no_True:
  "(\<exists>ds. collect f xs = Inr ds \<and> True \<notin> set ds) \<longleftrightarrow> (\<forall>x\<in>set xs. f x = Inr False)"
proof
  assume "\<exists>ds. collect f xs = Inr ds \<and> True \<notin> set ds"
  then obtain ds where ds: "collect f xs = Inr ds" "True \<notin> set ds" by blast
  from collect_Inr_member[OF ds(1)] ds(2)
  have "\<forall>x\<in>set xs. \<exists>b. f x = Inr b" and "\<forall>x\<in>set xs. f x \<noteq> Inr True" by blast+
  then show "\<forall>x\<in>set xs. f x = Inr False" using Inr_bool_cases by blast
next
  assume h: "\<forall>x\<in>set xs. f x = Inr False"
  then have "\<forall>x\<in>set xs. \<exists>b. f x = Inr b" by blast
  from collect_total[OF this] obtain bs where bs: "collect f xs = Inr bs"
    "\<forall>b. (b \<in> set bs) = (\<exists>x\<in>set xs. f x = Inr b)" by blast
  with h have "True \<notin> set bs" by simp
  with bs(1) show "\<exists>ds. collect f xs = Inr ds \<and> True \<notin> set ds" by blast
qed

lemma collect_in_order_pure:
  "\<forall>x\<in>set xs. \<forall>h. f x h = (g x, h) \<Longrightarrow> collect_in_order f xs h = (collect g xs, h)"
  by (induction xs arbitrary: h) (auto split: sum.splits)

lemma collect_in_order_append:
  "collect_in_order f (xs @ ys) h =
     (case collect_in_order f xs h of
        (Inl e, h1) \<Rightarrow> (Inl e, h1)
      | (Inr bs, h1) \<Rightarrow>
          (case collect_in_order f ys h1 of
             (Inl e, h2) \<Rightarrow> (Inl e, h2)
           | (Inr cs, h2) \<Rightarrow> (Inr (bs @ cs), h2)))"
  by (induction xs arbitrary: h) (auto split: prod.splits sum.splits)

lemma collect_in_order_Inl:
  "fst (collect_in_order f xs h) = Inl e \<longleftrightarrow>
     (\<exists>pre it post bs h1. xs = pre @ it # post \<and>
        collect_in_order f pre h = (Inr bs, h1) \<and> fst (f it h1) = Inl e)"
  (is "?L xs h \<longleftrightarrow> ?R xs h")
proof
  show "?L xs h \<Longrightarrow> ?R xs h"
  proof (induction xs arbitrary: h)
    case Nil
    then show ?case by simp
  next
    case (Cons a xs)
    obtain r h1 where a: "f a h = (r, h1)" by (cases "f a h")
    show ?case
    proof (cases r)
      case (Inl e')
      with a Cons.prems have "e' = e" by simp
      with a Inl have "a # xs = [] @ a # xs \<and> collect_in_order f [] h = (Inr [], h) \<and>
          fst (f a h) = Inl e" by simp
      then show ?thesis by blast
    next
      case (Inr b)
      with a Cons.prems have "?L xs h1" by (auto split: prod.splits sum.splits)
      from Cons.IH[OF this] obtain pre it post bs h2 where p: "xs = pre @ it # post"
        "collect_in_order f pre h1 = (Inr bs, h2)" "fst (f it h2) = Inl e" by blast
      with a Inr have "a # xs = (a # pre) @ it # post \<and>
          collect_in_order f (a # pre) h = (Inr (b # bs), h2) \<and> fst (f it h2) = Inl e"
        by simp
      then show ?thesis by blast
    qed
  qed
next
  assume "?R xs h"
  then obtain pre it post bs h1 where p: "xs = pre @ it # post"
    "collect_in_order f pre h = (Inr bs, h1)" "fst (f it h1) = Inl e" by blast
  obtain r h2 where r: "f it h1 = (r, h2)" by (cases "f it h1")
  with p(3) have "r = Inl e" by simp
  with p r show "?L xs h" by (simp add: collect_in_order_append)
qed

lemma denies_map_collect:
  "denies_map R ctl rs c m d h = collect_in_order (\<lambda>it. denies R ctl it c m d) rs h"
  by (induction rs arbitrary: h) (auto split: prod.splits sum.splits)

lemma permits_map_collect:
  "permits_map R ctl rs c m d h = collect_in_order (\<lambda>it. permits R ctl it c m d) rs h"
  by (induction rs arbitrary: h) (auto split: prod.splits sum.splits)

subsection \<open>Policies whose matchers carry no flag\<close>

text \<open>
  Without the flags no call changes the state, and no answer depends on it.
\<close>

lemma denies_no_flags:
  assumes nf: "no_flags ctl"
  shows "denies R ctl role c m d h = (fst (denies R ctl role c m d h0), h)"
proof -
  have "\<forall>h h0. denies R ctl role c m d h = (fst (denies R ctl role c m d h0), h)"
  proof (induction role)
    case (Role r)
    show ?case by (simp add: findEntries_no_flags[OF nf])
  next
    case (Roles rs)
    show ?case
    proof (intro allI)
      fix h h0
      let ?g = "\<lambda>it. fst (denies R ctl it c m d h0)"
      from Roles have "\<forall>x\<in>set rs. \<forall>h. denies R ctl x c m d h = (?g x, h)" by blast
      then have "\<And>h. collect_in_order (\<lambda>it. denies R ctl it c m d) rs h = (collect ?g rs, h)"
        by (rule collect_in_order_pure)
      then show "denies R ctl (Roles rs) c m d h = (fst (denies R ctl (Roles rs) c m d h0), h)"
        by (simp add: denies_map_collect split: sum.splits)
    qed
  qed
  then show ?thesis by blast
qed

lemma denies_map_no_flags:
  assumes nf: "no_flags ctl"
  shows "denies_map R ctl rs c m d h = (collect (\<lambda>it. fst (denies R ctl it c m d h0)) rs, h)"
proof -
  have "\<forall>x\<in>set rs. \<forall>h. denies R ctl x c m d h = (fst (denies R ctl x c m d h0), h)"
    using denies_no_flags[OF nf] by blast
  then show ?thesis unfolding denies_map_collect by (rule collect_in_order_pure)
qed

lemma permits_no_flags:
  assumes nf: "no_flags ctl"
  shows "permits R ctl role c m d h = (fst (permits R ctl role c m d h0), h)"
proof -
  have "\<forall>h h0. permits R ctl role c m d h = (fst (permits R ctl role c m d h0), h)"
  proof (induction role)
    case (Role r)
    show ?case by (simp add: findEntries_no_flags[OF nf] split: sum.splits)
  next
    case (Roles rs)
    show ?case
    proof (intro allI)
      fix h h0
      let ?g = "\<lambda>it. fst (permits R ctl it c m d h0)"
      from Roles have "\<forall>x\<in>set rs. \<forall>h. permits R ctl x c m d h = (?g x, h)" by blast
      then have "\<And>h. collect_in_order (\<lambda>it. permits R ctl it c m d) rs h = (collect ?g rs, h)"
        by (rule collect_in_order_pure)
      then show "permits R ctl (Roles rs) c m d h = (fst (permits R ctl (Roles rs) c m d h0), h)"
        by (simp add: permits_map_collect denies_map_no_flags[OF nf, of _ _ _ _ _ _ h0]
            split: sum.splits)
    qed
  qed
  then show ?thesis by blast
qed

lemma permits_map_no_flags:
  assumes nf: "no_flags ctl"
  shows "permits_map R ctl rs c m d h = (collect (\<lambda>it. fst (permits R ctl it c m d h0)) rs, h)"
proof -
  have "\<forall>x\<in>set rs. \<forall>h. permits R ctl x c m d h = (fst (permits R ctl x c m d h0), h)"
    using permits_no_flags[OF nf] by blast
  then show ?thesis unfolding permits_map_collect by (rule collect_in_order_pure)
qed

lemma denies_Roles_total:
  assumes nf: "no_flags ctl"
    and all: "\<forall>x\<in>set rs. \<exists>b. fst (denies R ctl x c m d h) = Inr b"
  shows "denies R ctl (Roles rs) c m d h =
         (Inr (\<exists>x\<in>set rs. fst (denies R ctl x c m d h) = Inr True), h)"
proof -
  obtain bs where "collect (\<lambda>it. fst (denies R ctl it c m d h)) rs = Inr bs"
    "\<forall>b. (b \<in> set bs) = (\<exists>x\<in>set rs. fst (denies R ctl x c m d h) = Inr b)"
    using collect_total[OF all] by blast
  then show ?thesis by (simp add: denies_map_no_flags[OF nf, where ?h0.0 = h])
qed

lemma denies_Roles_True:
  assumes nf: "no_flags ctl"
  shows "fst (denies R ctl (Roles rs) c m d h) = Inr True \<longleftrightarrow>
     (\<forall>x\<in>set rs. \<exists>b. fst (denies R ctl x c m d h) = Inr b) \<and>
     (\<exists>x\<in>set rs. fst (denies R ctl x c m d h) = Inr True)"
proof
  assume "fst (denies R ctl (Roles rs) c m d h) = Inr True"
  then obtain bs where bs: "collect (\<lambda>it. fst (denies R ctl it c m d h)) rs = Inr bs"
    "True \<in> set bs"
    by (auto simp: denies_map_no_flags[OF nf, where ?h0.0 = h] split: sum.splits)
  from collect_Inr_member[OF bs(1)] bs(2)
  show "(\<forall>x\<in>set rs. \<exists>b. fst (denies R ctl x c m d h) = Inr b) \<and>
     (\<exists>x\<in>set rs. fst (denies R ctl x c m d h) = Inr True)" by blast
next
  assume "(\<forall>x\<in>set rs. \<exists>b. fst (denies R ctl x c m d h) = Inr b) \<and>
     (\<exists>x\<in>set rs. fst (denies R ctl x c m d h) = Inr True)"
  then show "fst (denies R ctl (Roles rs) c m d h) = Inr True"
    using denies_Roles_total[OF nf, of rs R c m d h] by simp
qed

lemma permits_Roles_total:
  assumes nf: "no_flags ctl"
    and dn: "\<forall>x\<in>set rs. \<exists>b. fst (denies R ctl x c m d h) = Inr b"
    and pm: "\<forall>x\<in>set rs. \<exists>b. fst (permits R ctl x c m d h) = Inr b"
  shows "permits R ctl (Roles rs) c m d h =
         (Inr ((\<forall>x\<in>set rs. fst (denies R ctl x c m d h) = Inr False) \<and>
               (\<exists>x\<in>set rs. fst (permits R ctl x c m d h) = Inr True)), h)"
proof -
  obtain ds where ds: "collect (\<lambda>it. fst (denies R ctl it c m d h)) rs = Inr ds"
    "\<forall>b. (b \<in> set ds) = (\<exists>x\<in>set rs. fst (denies R ctl x c m d h) = Inr b)"
    using collect_total[OF dn] by blast
  obtain ps where ps: "collect (\<lambda>it. fst (permits R ctl it c m d h)) rs = Inr ps"
    "\<forall>b. (b \<in> set ps) = (\<exists>x\<in>set rs. fst (permits R ctl x c m d h) = Inr b)"
    using collect_total[OF pm] by blast
  have "(True \<notin> set ds) = (\<forall>x\<in>set rs. fst (denies R ctl x c m d h) \<noteq> Inr True)"
    using ds(2) by simp
  also have "\<dots> = (\<forall>x\<in>set rs. fst (denies R ctl x c m d h) = Inr False)"
    using dn Inr_bool_cases by (intro ball_cong refl) blast
  finally have nd: "(True \<notin> set ds) =
      (\<forall>x\<in>set rs. fst (denies R ctl x c m d h) = Inr False)" .
  have pt: "(True \<in> set ps) = (\<exists>x\<in>set rs. fst (permits R ctl x c m d h) = Inr True)"
    using ps(2) by simp
  show ?thesis
  proof (cases "True \<in> set ds")
    case True
    with nd have "\<not> (\<forall>x\<in>set rs. fst (denies R ctl x c m d h) = Inr False)" by simp
    with True ds(1) show ?thesis by (simp add: denies_map_no_flags[OF nf, where ?h0.0 = h])
  next
    case False
    with nd have "\<forall>x\<in>set rs. fst (denies R ctl x c m d h) = Inr False" by simp
    with False ds(1) ps(1) pt show ?thesis
      by (simp add: denies_map_no_flags[OF nf, where ?h0.0 = h]
          permits_map_no_flags[OF nf, where ?h0.0 = h])
  qed
qed

lemma permits_Roles_True:
  assumes nf: "no_flags ctl"
  shows "fst (permits R ctl (Roles rs) c m d h) = Inr True \<longleftrightarrow>
     (\<forall>x\<in>set rs. fst (denies R ctl x c m d h) = Inr False) \<and>
     (\<forall>x\<in>set rs. \<exists>b. fst (permits R ctl x c m d h) = Inr b) \<and>
     (\<exists>x\<in>set rs. fst (permits R ctl x c m d h) = Inr True)"
  (is "?L \<longleftrightarrow> ?R")
proof
  assume ?L
  then obtain ds ps where ds: "collect (\<lambda>it. fst (denies R ctl it c m d h)) rs = Inr ds"
      "True \<notin> set ds"
    and ps: "collect (\<lambda>it. fst (permits R ctl it c m d h)) rs = Inr ps" "True \<in> set ps"
    by (auto simp: denies_map_no_flags[OF nf, where ?h0.0 = h]
        permits_map_no_flags[OF nf, where ?h0.0 = h] split: sum.splits if_splits)
  from collect_Inr_member[OF ds(1)] ds(2)
  have "\<forall>x\<in>set rs. \<exists>b. fst (denies R ctl x c m d h) = Inr b"
    and "\<forall>x\<in>set rs. fst (denies R ctl x c m d h) \<noteq> Inr True" by blast+
  then have "\<forall>x\<in>set rs. fst (denies R ctl x c m d h) = Inr False"
    using Inr_bool_cases by blast
  with collect_Inr_member[OF ps(1)] ps(2) show ?R by blast
next
  assume r: ?R
  then have "\<forall>x\<in>set rs. \<exists>b. fst (denies R ctl x c m d h) = Inr b" by blast
  from permits_Roles_total[OF nf this] r show ?L by simp
qed

subsection \<open>The interrogation loop\<close>

lemma u_interrogate_append:
  "\<forall>x\<in>set pre. examine R x r c m d p = Continue \<Longrightarrow>
   u_interrogate R (pre @ es) r c m d p = u_interrogate R es r c m d p"
  by (induction pre) simp_all

lemma u_interrogate_skip:
  "examine R x r c m d p = Continue \<Longrightarrow>
   u_interrogate R (pre @ x # post) r c m d p = u_interrogate R (pre @ post) r c m d p"
  by (induction pre) (simp_all split: outcome.splits)

lemma u_interrogate_all_Continue:
  "\<forall>x\<in>set es. examine R x r c m d p = Continue \<Longrightarrow> u_interrogate R es r c m d p = Inr False"
  by (induction es) simp_all

lemma u_interrogate_Inl_iff:
  "u_interrogate R es r c m d p = Inl err \<longleftrightarrow>
     (\<exists>pre it post. es = pre @ it # post \<and>
        (\<forall>x\<in>set pre. examine R x r c m d p = Continue) \<and>
        examine R it r c m d p = Throw err)"
  (is "?I es \<longleftrightarrow> ?D es")
proof
  show "?I es \<Longrightarrow> ?D es"
  proof (induction es)
    case Nil
    then show ?case by simp
  next
    case (Cons a es)
    show ?case
    proof (cases "examine R a r c m d p")
      case Continue
      with Cons.prems have "?I es" by simp
      then obtain pre it post where h: "es = pre @ it # post"
        "\<forall>x\<in>set pre. examine R x r c m d p = Continue" "examine R it r c m d p = Throw err"
        using Cons.IH by blast
      with Continue have "a # es = (a # pre) @ it # post \<and>
        (\<forall>x\<in>set (a # pre). examine R x r c m d p = Continue) \<and>
        examine R it r c m d p = Throw err" by simp
      then show ?thesis by blast
    next
      case (Return b)
      with Cons.prems show ?thesis by simp
    next
      case (Throw e)
      with Cons.prems have "a # es = [] @ a # es \<and>
        (\<forall>x\<in>set []. examine R x r c m d p = Continue) \<and>
        examine R a r c m d p = Throw err" by simp
      then show ?thesis by blast
    qed
  qed
next
  assume "?D es"
  then obtain pre it post where h: "es = pre @ it # post"
    "\<forall>x\<in>set pre. examine R x r c m d p = Continue" "examine R it r c m d p = Throw err"
    by blast
  then show "?I es" by (simp add: u_interrogate_append)
qed

lemma examine_not_a_function:
  "examine R it r c m d p = Throw E_STRATEGY_NOT_A_FUNCTION \<longleftrightarrow>
     (\<exists>e. it = Some e \<and> \<not> is_boolean (strategy e) \<and>
        (\<exists>v. resolve R (strategy e) = Inr v \<and> \<not> is_function v))"
  by (cases it) (auto simp: examine_def resolve_def split: strategy.splits sum.splits if_splits)

lemma examine_function:
  "\<not> is_boolean (strategy e) \<Longrightarrow> resolve R (strategy e) = Inr (JFunction f) \<Longrightarrow>
   f r c m d = Inr v \<Longrightarrow>
   examine R (Some e) r c m d p = (if v = p then Return p else Continue)"
  by (auto simp: examine_def split: strategy.splits)

lemma examine_literal:
  "strategy e = JBoolean b \<Longrightarrow>
   examine R (Some e) r c m d p = (if b = p then Return True else Continue)"
  by (simp add: examine_def)

subsection \<open>Deny mode\<close>

lemma denies_Role_fst:
  "fst (denies R ctl (Role r) c m d h) = u_denies R (fst (u_findEntries ctl r c m h)) r c m d"
  by (simp split: prod.splits)

lemma deny_mode_first_decisive:
  assumes "\<forall>it\<in>set es. \<exists>e. it = Some e \<and>
             (is_boolean (strategy e) \<or> (\<exists>f v. strategy e = JFunction f \<and> f r c m d = Inr v))"
  shows "u_interrogate R es r c m d False =
         Inr (\<exists>e. find (\<lambda>it. case it of None \<Rightarrow> False
                          | Some e \<Rightarrow> (case strategy e of JBoolean b \<Rightarrow> \<not> b
                              | JFunction f \<Rightarrow> f r c m d = Inr False | _ \<Rightarrow> False)) es
                     = Some (Some e) \<and> strategy e = JBoolean False)"
  using assms
proof (induction es)
  case Nil
  show ?case by simp
next
  case (Cons a es)
  then obtain e where a: "a = Some e"
    and s: "is_boolean (strategy e) \<or> (\<exists>f v. strategy e = JFunction f \<and> f r c m d = Inr v)"
    by auto
  from Cons have IH: "u_interrogate R es r c m d False =
         Inr (\<exists>e. find (\<lambda>it. case it of None \<Rightarrow> False
                          | Some e \<Rightarrow> (case strategy e of JBoolean b \<Rightarrow> \<not> b
                              | JFunction f \<Rightarrow> f r c m d = Inr False | _ \<Rightarrow> False)) es
                     = Some (Some e) \<and> strategy e = JBoolean False)"
    by simp
  from s show ?case
  proof
    assume "is_boolean (strategy e)"
    then obtain b where b: "strategy e = JBoolean b" by (cases "strategy e") auto
    show ?thesis
    proof (cases b)
      case True
      with a b IH show ?thesis by (simp add: examine_def)
    next
      case False
      with a b show ?thesis by (simp add: examine_def)
    qed
  next
    assume "\<exists>f v. strategy e = JFunction f \<and> f r c m d = Inr v"
    then obtain f v where f: "strategy e = JFunction f" "f r c m d = Inr v" by blast
    show ?thesis
    proof (cases v)
      case True
      with a f IH show ?thesis by (simp add: examine_def resolve_def)
    next
      case False
      with a f show ?thesis by (simp add: examine_def resolve_def)
    qed
  qed
qed

lemma deny_mode_True_literal:
  "u_interrogate R es r c m d False = Inr True \<Longrightarrow>
   \<exists>e. Some e \<in> set es \<and> strategy e = JBoolean False"
proof (induction es)
  case Nil
  then show ?case by simp
next
  case (Cons a es)
  show ?case
  proof (cases "examine R a r c m d False")
    case Continue
    with Cons show ?thesis by auto
  next
    case (Return b)
    with Cons.prems have "examine R a r c m d False = Return True" by simp
    then have "\<exists>e. a = Some e \<and> strategy e = JBoolean False"
      by (cases a) (auto simp: examine_def split: strategy.splits sum.splits if_splits)
    then show ?thesis by auto
  next
    case (Throw e)
    with Cons.prems show ?thesis by simp
  qed
qed

lemma deny_mode_shield:
  assumes "\<forall>it\<in>set pre. \<exists>e. it = Some e \<and> strategy e \<noteq> JBoolean False \<and>
             (is_boolean (strategy e) \<or> (\<exists>f v. strategy e = JFunction f \<and> f r c m d = Inr v))"
    and "strategy e = JFunction f" and "f r c m d = Inr False"
  shows "u_interrogate R (pre @ Some e # post) r c m d False = Inr False"
  using assms(1)
proof (induction pre)
  case Nil
  from assms(2,3) show ?case by (simp add: examine_def resolve_def)
next
  case (Cons a pre)
  then obtain e' where a: "a = Some e'" and nf: "strategy e' \<noteq> JBoolean False"
    and s: "is_boolean (strategy e') \<or> (\<exists>f v. strategy e' = JFunction f \<and> f r c m d = Inr v)"
    by auto
  from Cons have IH: "u_interrogate R (pre @ Some e # post) r c m d False = Inr False" by simp
  from s show ?case
  proof
    assume "is_boolean (strategy e')"
    then obtain b where "strategy e' = JBoolean b" by (cases "strategy e'") auto
    with nf have "strategy e' = JBoolean True" by (cases b) auto
    with a IH show ?thesis by (simp add: examine_def)
  next
    assume "\<exists>f v. strategy e' = JFunction f \<and> f r c m d = Inr v"
    then obtain g v where g: "strategy e' = JFunction g" "g r c m d = Inr v" by blast
    with a IH show ?thesis by (cases v) (simp_all add: examine_def resolve_def)
  qed
qed

subsection \<open>The default policy\<close>


lemma default_policy_lines:
  assumes "list_all (\<lambda>c. \<not> LineTerminator c) role"
    and "list_all (\<lambda>c. \<not> LineTerminator c) clazz"
    and "list_all (\<lambda>c. \<not> LineTerminator c) method"
  shows "permits require (constructor None) (Role role) clazz method data h = (Inr True, h) \<and>
         denies require (constructor None) (Role role) clazz method data h = (Inr False, h)"
  using assms
  by (simp add: constructor_def DEFAULT_SECURITY_POLICY_def u_findEntries_def entry_test_def
      test_any_line u_denies_def u_permits_def examine_def)

lemma default_policy_no_match:
  assumes "\<not> list_all (\<lambda>c. \<not> LineTerminator c) role"
  shows "permits require (constructor None) (Role role) clazz method data h = (Inr False, h) \<and>
         denies require (constructor None) (Role role) clazz method data h = (Inr False, h)"
  using assms
  by (simp add: constructor_def DEFAULT_SECURITY_POLICY_def u_findEntries_def entry_test_def
      test_any_line u_denies_def u_permits_def examine_def)

subsection \<open>Evaluating the examples\<close>

lemmas controller_defs =
  constructor_def DEFAULT_SECURITY_POLICY_def LineTerminator_def
  u_findEntries_def entry_test_def test_exactly test_exactly_g test_any_line
  u_denies_def u_permits_def examine_def resolve_def

lemmas example_defs =
  no_modules_def true_modules_def entry_for_def entry_anywhere_def entry_anywhere_g_def
  cowboy_policy_def teller_manager_policy_def teller_dummy_policy_def
  manager_or_owner_def custom_entry_def denied_then_broken_def a_denied_b_broken_def
  by_reference_def custom_then_denied_def g_permitted_def g_denied_then_permitted_def
  fresh_def

lemmas flag_defs = no_flags_def constructor_def exactly_def any_line_def

section \<open>The claims\<close>




text \<open>
  C2. Asymmetry of function strategies. The interrogation has reached the entry \<open>e\<close>
  (every entry before it let the loop continue), the strategy of \<open>e\<close> is a function, given
  directly or as the export of the module a string strategy names, and the function
  returns with truthiness \<open>permitted\<close>. In permit mode \<^verbatim>\<open>true\<close> ends the interrogation with
  the answer \<^verbatim>\<open>true\<close> and \<^verbatim>\<open>false\<close> hands over to the entries after \<open>e\<close>. In deny mode \<^verbatim>\<open>false\<close>
  ends the interrogation, with the answer \<^verbatim>\<open>false\<close> of line 93, and \<^verbatim>\<open>true\<close> hands over to
  the entries after \<open>e\<close>.
\<close>

theorem dynamic_strategy_asymmetry:
  assumes reached: "\<forall>x\<in>set pre. examine require x role clazz method data permit = Continue"
    and fn: "strategy e = JFunction f \<or>
             (\<exists>name. strategy e = JString name \<and> require name = Inr (JFunction f))"
    and returns: "f role clazz method data = Inr permitted"
  shows "(permit \<and> permitted \<longrightarrow>
            u_interrogate require (pre @ Some e # post) role clazz method data permit = Inr True) \<and>
         (permit \<and> \<not> permitted \<longrightarrow>
            u_interrogate require (pre @ Some e # post) role clazz method data permit =
            u_interrogate require post role clazz method data permit) \<and>
         (\<not> permit \<and> \<not> permitted \<longrightarrow>
            u_interrogate require (pre @ Some e # post) role clazz method data permit = Inr False) \<and>
         (\<not> permit \<and> permitted \<longrightarrow>
            u_interrogate require (pre @ Some e # post) role clazz method data permit =
            u_interrogate require post role clazz method data permit)"
proof -
  from fn have "\<not> is_boolean (strategy e)" and "resolve require (strategy e) = Inr (JFunction f)"
    by (auto simp: resolve_def)
  with returns have ex: "examine require (Some e) role clazz method data permit =
      (if permitted = permit then Return permit else Continue)"
    by (simp add: examine_function)
  have "u_interrogate require (pre @ Some e # post) role clazz method data permit =
        u_interrogate require (Some e # post) role clazz method data permit"
    using reached by (rule u_interrogate_append)
  with ex show ?thesis by auto
qed

theorem dynamic_strategy_asymmetry_witness:
  "u_interrogate no_modules
     [Some (entry_for 0 ''Manager'' ''Account'' ''close'' (JBoolean False)), Some custom_entry,
      Some (entry_for 0 ''Manager'' ''Account'' ''close'' (JBoolean False))]
     ''Manager'' ''Account'' ''close'' () True = Inr True \<and>
   u_interrogate no_modules
     [Some (entry_for 0 ''Teller'' ''Account'' ''close'' (JBoolean False)), Some custom_entry,
      Some (entry_for 0 ''Teller'' ''Account'' ''close'' (JBoolean True))]
     ''Teller'' ''Account'' ''close'' () True = Inr True \<and>
   u_interrogate no_modules
     [Some (entry_for 0 ''Teller'' ''Account'' ''close'' (JBoolean True)), Some custom_entry,
      Some (entry_for 0 ''Teller'' ''Account'' ''close'' (JBoolean False))]
     ''Teller'' ''Account'' ''close'' () False = Inr False \<and>
   u_interrogate no_modules
     [Some (entry_for 0 ''Manager'' ''Account'' ''close'' (JBoolean True)), Some custom_entry,
      Some (entry_for 0 ''Manager'' ''Account'' ''close'' (JBoolean False))]
     ''Manager'' ''Account'' ''close'' () False = Inr True"
proof -
  have fn: "strategy custom_entry = JFunction manager_or_owner \<or>
      (\<exists>name. strategy custom_entry = JString name \<and>
         no_modules name = Inr (JFunction manager_or_owner))"
    by (simp add: custom_entry_def)
  have a: "\<forall>x\<in>set [Some (entry_for 0 ''Manager'' ''Account'' ''close'' (JBoolean False))].
      examine no_modules x ''Manager'' ''Account'' ''close'' () True = Continue"
    by (simp add: examine_def entry_for_def)
  have b: "\<forall>x\<in>set [Some (entry_for 0 ''Teller'' ''Account'' ''close'' (JBoolean False))].
      examine no_modules x ''Teller'' ''Account'' ''close'' () True = Continue"
    by (simp add: examine_def entry_for_def)
  have c: "\<forall>x\<in>set [Some (entry_for 0 ''Teller'' ''Account'' ''close'' (JBoolean True))].
      examine no_modules x ''Teller'' ''Account'' ''close'' () False = Continue"
    by (simp add: examine_def entry_for_def)
  have d: "\<forall>x\<in>set [Some (entry_for 0 ''Manager'' ''Account'' ''close'' (JBoolean True))].
      examine no_modules x ''Manager'' ''Account'' ''close'' () False = Continue"
    by (simp add: examine_def entry_for_def)
  have m: "manager_or_owner ''Manager'' ''Account'' ''close'' () = Inr True"
    by (simp add: manager_or_owner_def)
  have t: "manager_or_owner ''Teller'' ''Account'' ''close'' () = Inr False"
    by (simp add: manager_or_owner_def)
  note A = dynamic_strategy_asymmetry[where f = manager_or_owner and permitted = True
      and post = "[Some (entry_for 0 ''Manager'' ''Account'' ''close'' (JBoolean False))]",
      OF a fn m]
  note B = dynamic_strategy_asymmetry[where f = manager_or_owner and permitted = False
      and post = "[Some (entry_for 0 ''Teller'' ''Account'' ''close'' (JBoolean True))]",
      OF b fn t]
  note C = dynamic_strategy_asymmetry[where f = manager_or_owner and permitted = False
      and post = "[Some (entry_for 0 ''Teller'' ''Account'' ''close'' (JBoolean False))]",
      OF c fn t]
  note D = dynamic_strategy_asymmetry[where f = manager_or_owner and permitted = True
      and post = "[Some (entry_for 0 ''Manager'' ''Account'' ''close'' (JBoolean False))]",
      OF d fn m]
  from A have A': "u_interrogate no_modules
     [Some (entry_for 0 ''Manager'' ''Account'' ''close'' (JBoolean False)), Some custom_entry,
      Some (entry_for 0 ''Manager'' ''Account'' ''close'' (JBoolean False))]
     ''Manager'' ''Account'' ''close'' () True = Inr True" by simp
  from B have "u_interrogate no_modules
     [Some (entry_for 0 ''Teller'' ''Account'' ''close'' (JBoolean False)), Some custom_entry,
      Some (entry_for 0 ''Teller'' ''Account'' ''close'' (JBoolean True))]
     ''Teller'' ''Account'' ''close'' () True =
     u_interrogate no_modules [Some (entry_for 0 ''Teller'' ''Account'' ''close'' (JBoolean True))]
     ''Teller'' ''Account'' ''close'' () True" by simp
  also have "\<dots> = Inr True" by (simp add: examine_def entry_for_def)
  finally have B': "u_interrogate no_modules
     [Some (entry_for 0 ''Teller'' ''Account'' ''close'' (JBoolean False)), Some custom_entry,
      Some (entry_for 0 ''Teller'' ''Account'' ''close'' (JBoolean True))]
     ''Teller'' ''Account'' ''close'' () True = Inr True" .
  from C have C': "u_interrogate no_modules
     [Some (entry_for 0 ''Teller'' ''Account'' ''close'' (JBoolean True)), Some custom_entry,
      Some (entry_for 0 ''Teller'' ''Account'' ''close'' (JBoolean False))]
     ''Teller'' ''Account'' ''close'' () False = Inr False" by simp
  from D have "u_interrogate no_modules
     [Some (entry_for 0 ''Manager'' ''Account'' ''close'' (JBoolean True)), Some custom_entry,
      Some (entry_for 0 ''Manager'' ''Account'' ''close'' (JBoolean False))]
     ''Manager'' ''Account'' ''close'' () False =
     u_interrogate no_modules [Some (entry_for 0 ''Manager'' ''Account'' ''close'' (JBoolean False))]
     ''Manager'' ''Account'' ''close'' () False" by simp
  also have "\<dots> = Inr True" by (simp add: examine_def entry_for_def)
  finally have D': "u_interrogate no_modules
     [Some (entry_for 0 ''Manager'' ''Account'' ''close'' (JBoolean True)), Some custom_entry,
      Some (entry_for 0 ''Manager'' ''Account'' ''close'' (JBoolean False))]
     ''Manager'' ''Account'' ''close'' () False = Inr True" .
  from A' B' C' D' show ?thesis by (intro conjI)
qed

text \<open>
  C3. \<^verbatim>\<open>permits\<close> for a single role, from any state \<open>h\<close>: it returns \<^verbatim>\<open>true\<close> exactly when the
  deny-mode interrogation of the matched entries returns \<^verbatim>\<open>false\<close> and the permit-mode
  interrogation of the same entries returns \<^verbatim>\<open>true\<close>. The deny-mode interrogation comes
  first: when it returns \<^verbatim>\<open>true\<close> the answer is \<^verbatim>\<open>false\<close> whatever the permit-mode
  interrogation would do (in the example after the theorem it would throw), when it throws
  \<^verbatim>\<open>permits\<close> throws the same error, and when it returns \<^verbatim>\<open>false\<close> the answer is that of the
  permit-mode interrogation. The entries are found once: the state left is the one
  \<^verbatim>\<open>_findEntries\<close> leaves.
\<close>

theorem single_role_permits_composition:
  "(fst (permits require ctl (Role role) clazz method data h) = Inr True \<longleftrightarrow>
      u_interrogate require (fst (u_findEntries ctl role clazz method h))
        role clazz method data False = Inr False \<and>
      u_interrogate require (fst (u_findEntries ctl role clazz method h))
        role clazz method data True = Inr True) \<and>
   (u_interrogate require (fst (u_findEntries ctl role clazz method h))
      role clazz method data False = Inr True \<longrightarrow>
    fst (permits require ctl (Role role) clazz method data h) = Inr False) \<and>
   (u_interrogate require (fst (u_findEntries ctl role clazz method h))
      role clazz method data False = Inr False \<longrightarrow>
    fst (permits require ctl (Role role) clazz method data h) =
    u_interrogate require (fst (u_findEntries ctl role clazz method h))
      role clazz method data True) \<and>
   (\<forall>e. u_interrogate require (fst (u_findEntries ctl role clazz method h))
      role clazz method data False = Inl e \<longrightarrow>
    fst (permits require ctl (Role role) clazz method data h) = Inl e) \<and>
   snd (permits require ctl (Role role) clazz method data h) =
     snd (u_findEntries ctl role clazz method h)"
  by (auto simp: u_denies_def u_permits_def split: prod.splits sum.splits)

theorem single_role_permits_composition_witness:
  "u_interrogate no_modules
     (fst (u_findEntries (constructor (Some denied_then_broken)) ''A'' ''Foo'' ''bar'' fresh))
     ''A'' ''Foo'' ''bar'' () False = Inr True \<and>
   u_interrogate no_modules
     (fst (u_findEntries (constructor (Some denied_then_broken)) ''A'' ''Foo'' ''bar'' fresh))
     ''A'' ''Foo'' ''bar'' () True = Inl E_STRATEGY_NOT_A_FUNCTION \<and>
   fst (permits no_modules (constructor (Some denied_then_broken)) (Role ''A'') ''Foo'' ''bar''
     () fresh) = Inr False"
proof -
  have d: "u_interrogate no_modules
     (fst (u_findEntries (constructor (Some denied_then_broken)) ''A'' ''Foo'' ''bar'' fresh))
     ''A'' ''Foo'' ''bar'' () False = Inr True"
    by (simp add: controller_defs example_defs)
  have p: "u_interrogate no_modules
     (fst (u_findEntries (constructor (Some denied_then_broken)) ''A'' ''Foo'' ''bar'' fresh))
     ''A'' ''Foo'' ''bar'' () True = Inl E_STRATEGY_NOT_A_FUNCTION"
    by (simp add: controller_defs example_defs)
  from single_role_permits_composition[of no_modules "constructor (Some denied_then_broken)"
      "''A''" "''Foo''" "''bar''" "()" fresh] d
  have "fst (permits no_modules (constructor (Some denied_then_broken)) (Role ''A'')
     ''Foo'' ''bar'' () fresh) = Inr False" by blast
  with d p show ?thesis by (intro conjI)
qed

text \<open>
  C4. Arrays of roles. As stated, for every policy, the claim fails: when the call for one
  element throws, the call for the array throws, even if another element is denied (the
  first example below). What holds, for a policy whose matchers carry neither \<^verbatim>\<open>g\<close> nor
  \<^verbatim>\<open>y\<close> and whose strategies are pure functions: \<^verbatim>\<open>denies\<close> of the array returns \<^verbatim>\<open>true\<close>
  exactly when \<^verbatim>\<open>denies\<close> returns for every element and returns \<^verbatim>\<open>true\<close> for one of them;
  \<^verbatim>\<open>permits\<close> of the array returns \<^verbatim>\<open>true\<close> exactly when \<^verbatim>\<open>denies\<close> returns \<^verbatim>\<open>false\<close> for every
  element, \<^verbatim>\<open>permits\<close> returns for every element and returns \<^verbatim>\<open>true\<close> for one of them.
  When no call for an element throws, the array calls return, with the values the claim
  gives. For the empty array both return \<^verbatim>\<open>false\<close>. For such a policy the answer of a call
  does not depend on the state it starts from. The elements \<open>rs\<close> are role names
  (\<open>Role name\<close>) or arrays again.
\<close>

theorem multi_role_resolution:
  assumes nf: "no_flags ctl"
  shows
  "(fst (denies require ctl (Roles rs) clazz method data h) = Inr True \<longleftrightarrow>
      (\<forall>r\<in>set rs. \<exists>b. fst (denies require ctl r clazz method data h) = Inr b) \<and>
      (\<exists>r\<in>set rs. fst (denies require ctl r clazz method data h) = Inr True)) \<and>
   (fst (permits require ctl (Roles rs) clazz method data h) = Inr True \<longleftrightarrow>
      (\<forall>r\<in>set rs. fst (denies require ctl r clazz method data h) = Inr False) \<and>
      (\<forall>r\<in>set rs. \<exists>b. fst (permits require ctl r clazz method data h) = Inr b) \<and>
      (\<exists>r\<in>set rs. fst (permits require ctl r clazz method data h) = Inr True)) \<and>
   ((\<forall>r\<in>set rs. \<exists>b. fst (denies require ctl r clazz method data h) = Inr b) \<longrightarrow>
      fst (denies require ctl (Roles rs) clazz method data h) =
      Inr (\<exists>r\<in>set rs. fst (denies require ctl r clazz method data h) = Inr True)) \<and>
   ((\<forall>r\<in>set rs. \<exists>b. fst (denies require ctl r clazz method data h) = Inr b) \<and>
    (\<forall>r\<in>set rs. \<exists>b. fst (permits require ctl r clazz method data h) = Inr b) \<longrightarrow>
      fst (permits require ctl (Roles rs) clazz method data h) =
      Inr ((\<forall>r\<in>set rs. fst (denies require ctl r clazz method data h) = Inr False) \<and>
           (\<exists>r\<in>set rs. fst (permits require ctl r clazz method data h) = Inr True))) \<and>
   fst (denies require ctl (Roles []) clazz method data h) = Inr False \<and>
   fst (permits require ctl (Roles []) clazz method data h) = Inr False \<and>
   (\<forall>r h'. fst (denies require ctl r clazz method data h') =
            fst (denies require ctl r clazz method data h) \<and>
          fst (permits require ctl r clazz method data h') =
            fst (permits require ctl r clazz method data h))"
proof -
  have 1: "fst (denies require ctl (Roles rs) clazz method data h) = Inr True \<longleftrightarrow>
      (\<forall>r\<in>set rs. \<exists>b. fst (denies require ctl r clazz method data h) = Inr b) \<and>
      (\<exists>r\<in>set rs. fst (denies require ctl r clazz method data h) = Inr True)"
    using nf by (rule denies_Roles_True)
  have 2: "fst (permits require ctl (Roles rs) clazz method data h) = Inr True \<longleftrightarrow>
      (\<forall>r\<in>set rs. fst (denies require ctl r clazz method data h) = Inr False) \<and>
      (\<forall>r\<in>set rs. \<exists>b. fst (permits require ctl r clazz method data h) = Inr b) \<and>
      (\<exists>r\<in>set rs. fst (permits require ctl r clazz method data h) = Inr True)"
    using nf by (rule permits_Roles_True)
  have 3: "(\<forall>r\<in>set rs. \<exists>b. fst (denies require ctl r clazz method data h) = Inr b) \<longrightarrow>
      fst (denies require ctl (Roles rs) clazz method data h) =
      Inr (\<exists>r\<in>set rs. fst (denies require ctl r clazz method data h) = Inr True)"
  proof
    assume a: "\<forall>r\<in>set rs. \<exists>b. fst (denies require ctl r clazz method data h) = Inr b"
    from denies_Roles_total[OF nf a]
    show "fst (denies require ctl (Roles rs) clazz method data h) =
      Inr (\<exists>r\<in>set rs. fst (denies require ctl r clazz method data h) = Inr True)"
      by (simp only: fst_conv)
  qed
  have 4: "(\<forall>r\<in>set rs. \<exists>b. fst (denies require ctl r clazz method data h) = Inr b) \<and>
    (\<forall>r\<in>set rs. \<exists>b. fst (permits require ctl r clazz method data h) = Inr b) \<longrightarrow>
      fst (permits require ctl (Roles rs) clazz method data h) =
      Inr ((\<forall>r\<in>set rs. fst (denies require ctl r clazz method data h) = Inr False) \<and>
           (\<exists>r\<in>set rs. fst (permits require ctl r clazz method data h) = Inr True))"
  proof
    assume a: "(\<forall>r\<in>set rs. \<exists>b. fst (denies require ctl r clazz method data h) = Inr b) \<and>
      (\<forall>r\<in>set rs. \<exists>b. fst (permits require ctl r clazz method data h) = Inr b)"
    from permits_Roles_total[OF nf conjunct1[OF a] conjunct2[OF a]]
    show "fst (permits require ctl (Roles rs) clazz method data h) =
      Inr ((\<forall>r\<in>set rs. fst (denies require ctl r clazz method data h) = Inr False) \<and>
           (\<exists>r\<in>set rs. fst (permits require ctl r clazz method data h) = Inr True))"
      by (simp only: fst_conv)
  qed
  have 5: "fst (denies require ctl (Roles []) clazz method data h) = Inr False" by simp
  have 6: "fst (permits require ctl (Roles []) clazz method data h) = Inr False" by simp
  have 7: "\<forall>r h'. fst (denies require ctl r clazz method data h') =
            fst (denies require ctl r clazz method data h) \<and>
          fst (permits require ctl r clazz method data h') =
            fst (permits require ctl r clazz method data h)"
  proof (intro allI conjI)
    fix r h'
    show "fst (denies require ctl r clazz method data h') =
            fst (denies require ctl r clazz method data h)"
      using denies_no_flags[OF nf, of require r clazz "method" "data" h' h] by simp
    show "fst (permits require ctl r clazz method data h') =
            fst (permits require ctl r clazz method data h)"
      using permits_no_flags[OF nf, of require r clazz "method" "data" h' h] by simp
  qed
  from 1 2 3 4 5 6 7 show ?thesis by (intro conjI)
qed

theorem multi_role_resolution_counterexample:
  "fst (denies no_modules (constructor (Some a_denied_b_broken)) (Role ''A'') ''Foo'' ''bar'' ()
     fresh) = Inr True \<and>
   fst (denies no_modules (constructor (Some a_denied_b_broken)) (Roles [Role ''A'', Role ''B''])
     ''Foo'' ''bar'' () fresh) = Inl E_STRATEGY_NOT_A_FUNCTION"
  by (simp add: controller_defs example_defs)

theorem multi_role_resolution_witness:
  "no_flags (constructor (Some teller_dummy_policy)) \<and>
   no_flags (constructor (Some teller_manager_policy)) \<and>
   fst (denies no_modules (constructor (Some teller_dummy_policy))
     (Roles [Role ''Teller'', Role ''Dummy'']) ''Foo'' ''bar'' () fresh) = Inr True \<and>
   fst (permits no_modules (constructor (Some teller_dummy_policy))
     (Roles [Role ''Teller'', Role ''Dummy'']) ''Foo'' ''bar'' () fresh) = Inr False \<and>
   fst (denies no_modules (constructor (Some teller_manager_policy))
     (Roles [Role ''Teller'', Role ''Manager'']) ''Foo'' ''bar'' () fresh) = Inr False \<and>
   fst (permits no_modules (constructor (Some teller_manager_policy))
     (Roles [Role ''Teller'', Role ''Manager'']) ''Foo'' ''bar'' () fresh) = Inr True"
proof -
  have n1: "no_flags (constructor (Some teller_dummy_policy))"
    by (simp add: flag_defs example_defs)
  have n2: "no_flags (constructor (Some teller_manager_policy))"
    by (simp add: flag_defs example_defs)
  have d1: "\<forall>r\<in>set [Role ''Teller'', Role ''Dummy''].
      \<exists>b. fst (denies no_modules (constructor (Some teller_dummy_policy)) r ''Foo'' ''bar'' ()
        fresh) = Inr b"
    by (auto simp add: controller_defs example_defs)
  have p1: "\<forall>r\<in>set [Role ''Teller'', Role ''Dummy''].
      \<exists>b. fst (permits no_modules (constructor (Some teller_dummy_policy)) r ''Foo'' ''bar'' ()
        fresh) = Inr b"
    by (auto simp add: controller_defs example_defs)
  have d2: "\<forall>r\<in>set [Role ''Teller'', Role ''Manager''].
      \<exists>b. fst (denies no_modules (constructor (Some teller_manager_policy)) r ''Foo'' ''bar'' ()
        fresh) = Inr b"
    by (auto simp add: controller_defs example_defs)
  have p2: "\<forall>r\<in>set [Role ''Teller'', Role ''Manager''].
      \<exists>b. fst (permits no_modules (constructor (Some teller_manager_policy)) r ''Foo'' ''bar'' ()
        fresh) = Inr b"
    by (auto simp add: controller_defs example_defs)
  note T1 = multi_role_resolution[OF n1, of no_modules
      "[Role ''Teller'', Role ''Dummy'']" "''Foo''" "''bar''" "()" fresh]
  note T2 = multi_role_resolution[OF n2, of no_modules
      "[Role ''Teller'', Role ''Manager'']" "''Foo''" "''bar''" "()" fresh]
  from T1 d1 have a: "fst (denies no_modules (constructor (Some teller_dummy_policy))
      (Roles [Role ''Teller'', Role ''Dummy'']) ''Foo'' ''bar'' () fresh) =
      Inr (\<exists>r\<in>set [Role ''Teller'', Role ''Dummy''].
        fst (denies no_modules (constructor (Some teller_dummy_policy)) r ''Foo'' ''bar'' ()
          fresh) = Inr True)"
    by blast
  from T1 d1 p1 have b: "fst (permits no_modules (constructor (Some teller_dummy_policy))
      (Roles [Role ''Teller'', Role ''Dummy'']) ''Foo'' ''bar'' () fresh) =
      Inr ((\<forall>r\<in>set [Role ''Teller'', Role ''Dummy''].
        fst (denies no_modules (constructor (Some teller_dummy_policy)) r ''Foo'' ''bar'' ()
          fresh) = Inr False) \<and>
       (\<exists>r\<in>set [Role ''Teller'', Role ''Dummy''].
        fst (permits no_modules (constructor (Some teller_dummy_policy)) r ''Foo'' ''bar'' ()
          fresh) = Inr True))"
    by blast
  from T2 d2 have c: "fst (denies no_modules (constructor (Some teller_manager_policy))
      (Roles [Role ''Teller'', Role ''Manager'']) ''Foo'' ''bar'' () fresh) =
      Inr (\<exists>r\<in>set [Role ''Teller'', Role ''Manager''].
        fst (denies no_modules (constructor (Some teller_manager_policy)) r ''Foo'' ''bar'' ()
          fresh) = Inr True)"
    by blast
  from T2 d2 p2 have d: "fst (permits no_modules (constructor (Some teller_manager_policy))
      (Roles [Role ''Teller'', Role ''Manager'']) ''Foo'' ''bar'' () fresh) =
      Inr ((\<forall>r\<in>set [Role ''Teller'', Role ''Manager''].
        fst (denies no_modules (constructor (Some teller_manager_policy)) r ''Foo'' ''bar'' ()
          fresh) = Inr False) \<and>
       (\<exists>r\<in>set [Role ''Teller'', Role ''Manager''].
        fst (permits no_modules (constructor (Some teller_manager_policy)) r ''Foo'' ''bar'' ()
          fresh) = Inr True))"
    by blast
  have a': "fst (denies no_modules (constructor (Some teller_dummy_policy))
     (Roles [Role ''Teller'', Role ''Dummy'']) ''Foo'' ''bar'' () fresh) = Inr True"
    unfolding a by (simp add: controller_defs example_defs)
  have b': "fst (permits no_modules (constructor (Some teller_dummy_policy))
     (Roles [Role ''Teller'', Role ''Dummy'']) ''Foo'' ''bar'' () fresh) = Inr False"
    unfolding b by (simp add: controller_defs example_defs)
  have c': "fst (denies no_modules (constructor (Some teller_manager_policy))
     (Roles [Role ''Teller'', Role ''Manager'']) ''Foo'' ''bar'' () fresh) = Inr False"
    unfolding c by (simp add: controller_defs example_defs)
  have d': "fst (permits no_modules (constructor (Some teller_manager_policy))
     (Roles [Role ''Teller'', Role ''Manager'']) ''Foo'' ''bar'' () fresh) = Inr True"
    unfolding d by (simp add: controller_defs example_defs)
  from n1 n2 a' b' c' d' show ?thesis by (intro conjI)
qed

text \<open>
  C5. Literal strategies and the default. In either mode, when the interrogation reaches
  an entry whose strategy is the boolean literal equal to the mode, it returns \<^verbatim>\<open>true\<close>. An
  entry whose strategy is the other literal lets the loop continue, and the interrogation
  answers as if that entry were not in the list. When every entry lets the loop continue,
  the answer is \<^verbatim>\<open>false\<close>, in both modes.
\<close>

theorem literal_decisiveness_default_deny:
  "((\<forall>x\<in>set pre. examine require x role clazz method data permit = Continue) \<and>
      strategy e = JBoolean permit \<longrightarrow>
      u_interrogate require (pre @ Some e # post) role clazz method data permit = Inr True) \<and>
   (strategy e = JBoolean (\<not> permit) \<longrightarrow>
      examine require (Some e) role clazz method data permit = Continue \<and>
      u_interrogate require (pre @ Some e # post) role clazz method data permit =
      u_interrogate require (pre @ post) role clazz method data permit) \<and>
   ((\<forall>x\<in>set entries. examine require x role clazz method data permit = Continue) \<longrightarrow>
      u_interrogate require entries role clazz method data permit = Inr False)"
proof (intro conjI impI)
  assume h: "(\<forall>x\<in>set pre. examine require x role clazz method data permit = Continue) \<and>
      strategy e = JBoolean permit"
  then have "examine require (Some e) role clazz method data permit = Return True"
    by (simp add: examine_literal)
  with h show "u_interrogate require (pre @ Some e # post) role clazz method data permit = Inr True"
    by (simp add: u_interrogate_append)
next
  assume "strategy e = JBoolean (\<not> permit)"
  then show c: "examine require (Some e) role clazz method data permit = Continue"
    by (simp add: examine_literal)
  then show "u_interrogate require (pre @ Some e # post) role clazz method data permit =
      u_interrogate require (pre @ post) role clazz method data permit"
    by (rule u_interrogate_skip)
next
  assume "\<forall>x\<in>set entries. examine require x role clazz method data permit = Continue"
  then show "u_interrogate require entries role clazz method data permit = Inr False"
    by (rule u_interrogate_all_Continue)
qed

theorem literal_decisiveness_default_deny_witness:
  "u_interrogate no_modules cowboy_policy ''Cowboy'' ''Foo'' ''bar'' () False = Inr True \<and>
   u_interrogate no_modules cowboy_policy ''Cowboy'' ''Foo'' ''bar'' () True =
     u_interrogate no_modules
       [Some (entry_for 0 ''Cowboy'' ''Foo'' ''bar'' (JBoolean True)),
        Some (entry_for 1 ''Cowboy'' ''Foo'' ''bar'' (JBoolean True))]
       ''Cowboy'' ''Foo'' ''bar'' () True \<and>
   u_interrogate no_modules
     [Some (entry_for 0 ''Cowboy'' ''Foo'' ''bar'' (JBoolean True)),
      Some (entry_for 1 ''Cowboy'' ''Foo'' ''bar'' (JBoolean True))]
     ''Cowboy'' ''Foo'' ''bar'' () False = Inr False"
proof -
  let ?t = "entry_for 0 ''Cowboy'' ''Foo'' ''bar'' (JBoolean True) :: (unit, unit) SecurityPolicyEntry"
  let ?u = "entry_for 1 ''Cowboy'' ''Foo'' ''bar'' (JBoolean True) :: (unit, unit) SecurityPolicyEntry"
  let ?f = "entry_for 2 ''Cowboy'' ''Foo'' ''bar'' (JBoolean False) :: (unit, unit) SecurityPolicyEntry"
  have c: "\<forall>x\<in>set [Some ?t, Some ?u].
      examine no_modules x ''Cowboy'' ''Foo'' ''bar'' () False = Continue"
    by (simp add: examine_def entry_for_def)
  have sf: "strategy ?f = JBoolean False" by (simp add: entry_for_def)
  have sf': "strategy ?f = JBoolean (\<not> True)" by (simp add: entry_for_def)
  note T = literal_decisiveness_default_deny[of "[Some ?t, Some ?u]" no_modules
      "''Cowboy''" "''Foo''" "''bar''" "()" _ ?f "[]" "[Some ?t, Some ?u]"]
  from T[where permit = False] c sf
  have 1: "u_interrogate no_modules ([Some ?t, Some ?u] @ Some ?f # [])
      ''Cowboy'' ''Foo'' ''bar'' () False = Inr True" by blast
  from T[where permit = True] sf'
  have 2: "u_interrogate no_modules ([Some ?t, Some ?u] @ Some ?f # [])
      ''Cowboy'' ''Foo'' ''bar'' () True =
      u_interrogate no_modules ([Some ?t, Some ?u] @ []) ''Cowboy'' ''Foo'' ''bar'' () True"
    by blast
  from T[where permit = False] c
  have 3: "u_interrogate no_modules [Some ?t, Some ?u] ''Cowboy'' ''Foo'' ''bar'' () False
      = Inr False" by blast
  from 1 2 3 show ?thesis by (simp add: cowboy_policy_def)
qed

text \<open>
  C6. The default policy. With no policy supplied the controller uses
  \<^verbatim>\<open>DEFAULT_SECURITY_POLICY\<close>, documented as permitting all roles to call all methods on all
  classes. Its matchers are \<^verbatim>\<open>/^.*$/\<close>, which does not match a name holding a line
  terminator: for the request of the specification the answers are \<^verbatim>\<open>true\<close> and \<^verbatim>\<open>false\<close>,
  for the role \<^verbatim>\<open>'a\nb'\<close> no entry matches and \<^verbatim>\<open>permits\<close> returns \<^verbatim>\<open>false\<close>, from every state.
\<close>

theorem default_policy_line_terminator:
  "fst (permits no_modules (constructor None) (Role ''anything'') ''Any'' ''any'' () h)
     = Inr True \<and>
   fst (denies no_modules (constructor None) (Role ''anything'') ''Any'' ''any'' () h)
     = Inr False \<and>
   fst (permits no_modules (constructor None) (Role [CHR ''a'', CHR 0x0A, CHR ''b''])
     ''Any'' ''any'' () h) = Inr False \<and>
   fst (denies no_modules (constructor None) (Role [CHR ''a'', CHR 0x0A, CHR ''b''])
     ''Any'' ''any'' () h) = Inr False"
  by (simp add: controller_defs)




text \<open>
  C8. The error \<^verbatim>\<open>E_STRATEGY_NOT_A_FUNCTION\<close>. As stated the claim fails: a string
  strategy whose module exports a boolean raises the error, although after resolution the
  strategy is a boolean literal (the first example below). What holds: an interrogation
  raises the error exactly when it reaches an entry whose strategy is not a boolean
  literal and, once a string strategy is replaced by what \<^verbatim>\<open>require\<close> returns for it, is
  not a function. An error \<open>err\<close> raised by an interrogation is the result of the call:
  \<^verbatim>\<open>denies\<close> for a single role raises what its deny-mode interrogation raises;
  \<^verbatim>\<open>permits\<close> raises what the deny-mode interrogation raises, or, when that one returns
  \<^verbatim>\<open>false\<close>, what the permit-mode interrogation raises; a call for an array raises the first
  error of its element calls, made in order (\<open>denies_map\<close> and \<open>permits_map\<close> over the
  elements before it return). For a policy whose matchers carry no flag the state plays
  no part in this. Values thrown by a strategy function or by \<^verbatim>\<open>require\<close> are \<open>Thrown\<close>,
  apart from the controller's own error.
\<close>

theorem strategy_not_callable_error:
  "(u_interrogate require entries role clazz method data permit = Inl E_STRATEGY_NOT_A_FUNCTION \<longleftrightarrow>
      (\<exists>pre e post. entries = pre @ Some e # post \<and>
         (\<forall>x\<in>set pre. examine require x role clazz method data permit = Continue) \<and>
         \<not> is_boolean (strategy e) \<and>
         (\<exists>v. resolve require (strategy e) = Inr v \<and> \<not> is_function v))) \<and>
   (fst (denies require ctl (Role role) clazz method data h) = Inl err \<longleftrightarrow>
      u_interrogate require (fst (u_findEntries ctl role clazz method h))
        role clazz method data False = Inl err) \<and>
   (fst (permits require ctl (Role role) clazz method data h) = Inl err \<longleftrightarrow>
      u_interrogate require (fst (u_findEntries ctl role clazz method h))
        role clazz method data False = Inl err \<or>
      u_interrogate require (fst (u_findEntries ctl role clazz method h))
        role clazz method data False = Inr False \<and>
      u_interrogate require (fst (u_findEntries ctl role clazz method h))
        role clazz method data True = Inl err) \<and>
   (fst (denies require ctl (Roles rs) clazz method data h) = Inl err \<longleftrightarrow>
      (\<exists>pre it post bs h1. rs = pre @ it # post \<and>
         denies_map require ctl pre clazz method data h = (Inr bs, h1) \<and>
         fst (denies require ctl it clazz method data h1) = Inl err)) \<and>
   (fst (permits require ctl (Roles rs) clazz method data h) = Inl err \<longleftrightarrow>
      (\<exists>pre it post bs h1. rs = pre @ it # post \<and>
         denies_map require ctl pre clazz method data h = (Inr bs, h1) \<and>
         fst (denies require ctl it clazz method data h1) = Inl err) \<or>
      (\<exists>ds h1. denies_map require ctl rs clazz method data h = (Inr ds, h1) \<and>
         True \<notin> set ds \<and>
         (\<exists>pre it post bs h2. rs = pre @ it # post \<and>
            permits_map require ctl pre clazz method data h1 = (Inr bs, h2) \<and>
            fst (permits require ctl it clazz method data h2) = Inl err))) \<and>
   (no_flags ctl \<longrightarrow>
      (fst (denies require ctl (Roles rs) clazz method data h) = Inl err \<longleftrightarrow>
         (\<exists>pre it post. rs = pre @ it # post \<and>
            (\<forall>x\<in>set pre. \<exists>b. fst (denies require ctl x clazz method data h) = Inr b) \<and>
            fst (denies require ctl it clazz method data h) = Inl err)) \<and>
      (fst (permits require ctl (Roles rs) clazz method data h) = Inl err \<longleftrightarrow>
         (\<exists>pre it post. rs = pre @ it # post \<and>
            (\<forall>x\<in>set pre. \<exists>b. fst (denies require ctl x clazz method data h) = Inr b) \<and>
            fst (denies require ctl it clazz method data h) = Inl err) \<or>
         (\<forall>x\<in>set rs. fst (denies require ctl x clazz method data h) = Inr False) \<and>
         (\<exists>pre it post. rs = pre @ it # post \<and>
            (\<forall>x\<in>set pre. \<exists>b. fst (permits require ctl x clazz method data h) = Inr b) \<and>
            fst (permits require ctl it clazz method data h) = Inl err)))"
proof -
  have 1: "u_interrogate require entries role clazz method data permit
        = Inl E_STRATEGY_NOT_A_FUNCTION \<longleftrightarrow>
      (\<exists>pre e post. entries = pre @ Some e # post \<and>
         (\<forall>x\<in>set pre. examine require x role clazz method data permit = Continue) \<and>
         \<not> is_boolean (strategy e) \<and>
         (\<exists>v. resolve require (strategy e) = Inr v \<and> \<not> is_function v))"
    unfolding u_interrogate_Inl_iff examine_not_a_function by blast
  have 2: "fst (denies require ctl (Role role) clazz method data h) = Inl err \<longleftrightarrow>
      u_interrogate require (fst (u_findEntries ctl role clazz method h))
        role clazz method data False = Inl err"
    by (simp add: u_denies_def split: prod.splits)
  have 3: "fst (permits require ctl (Role role) clazz method data h) = Inl err \<longleftrightarrow>
      u_interrogate require (fst (u_findEntries ctl role clazz method h))
        role clazz method data False = Inl err \<or>
      u_interrogate require (fst (u_findEntries ctl role clazz method h))
        role clazz method data False = Inr False \<and>
      u_interrogate require (fst (u_findEntries ctl role clazz method h))
        role clazz method data True = Inl err"
    by (auto simp: u_denies_def u_permits_def split: prod.splits sum.splits)
  have d: "\<And>h. fst (denies_map require ctl rs clazz method data h) = Inl err \<longleftrightarrow>
      (\<exists>pre it post bs h1. rs = pre @ it # post \<and>
         denies_map require ctl pre clazz method data h = (Inr bs, h1) \<and>
         fst (denies require ctl it clazz method data h1) = Inl err)"
    unfolding denies_map_collect by (rule collect_in_order_Inl)
  have p: "\<And>h. fst (permits_map require ctl rs clazz method data h) = Inl err \<longleftrightarrow>
      (\<exists>pre it post bs h1. rs = pre @ it # post \<and>
         permits_map require ctl pre clazz method data h = (Inr bs, h1) \<and>
         fst (permits require ctl it clazz method data h1) = Inl err)"
    unfolding permits_map_collect by (rule collect_in_order_Inl)
  have 4: "fst (denies require ctl (Roles rs) clazz method data h) = Inl err \<longleftrightarrow>
      (\<exists>pre it post bs h1. rs = pre @ it # post \<and>
         denies_map require ctl pre clazz method data h = (Inr bs, h1) \<and>
         fst (denies require ctl it clazz method data h1) = Inl err)"
  proof -
    have "fst (denies require ctl (Roles rs) clazz method data h) = Inl err \<longleftrightarrow>
        fst (denies_map require ctl rs clazz method data h) = Inl err"
      by (simp split: prod.splits sum.splits)
    then show ?thesis unfolding d .
  qed
  have 5: "fst (permits require ctl (Roles rs) clazz method data h) = Inl err \<longleftrightarrow>
      (\<exists>pre it post bs h1. rs = pre @ it # post \<and>
         denies_map require ctl pre clazz method data h = (Inr bs, h1) \<and>
         fst (denies require ctl it clazz method data h1) = Inl err) \<or>
      (\<exists>ds h1. denies_map require ctl rs clazz method data h = (Inr ds, h1) \<and>
         True \<notin> set ds \<and>
         (\<exists>pre it post bs h2. rs = pre @ it # post \<and>
            permits_map require ctl pre clazz method data h1 = (Inr bs, h2) \<and>
            fst (permits require ctl it clazz method data h2) = Inl err))"
  proof -
    have "fst (permits require ctl (Roles rs) clazz method data h) = Inl err \<longleftrightarrow>
        fst (denies_map require ctl rs clazz method data h) = Inl err \<or>
        (\<exists>ds h1. denies_map require ctl rs clazz method data h = (Inr ds, h1) \<and>
           True \<notin> set ds \<and> fst (permits_map require ctl rs clazz method data h1) = Inl err)"
      by (auto split: prod.splits sum.splits if_splits)
    then show ?thesis unfolding d p .
  qed
  have 6: "no_flags ctl \<longrightarrow>
      (fst (denies require ctl (Roles rs) clazz method data h) = Inl err \<longleftrightarrow>
         (\<exists>pre it post. rs = pre @ it # post \<and>
            (\<forall>x\<in>set pre. \<exists>b. fst (denies require ctl x clazz method data h) = Inr b) \<and>
            fst (denies require ctl it clazz method data h) = Inl err)) \<and>
      (fst (permits require ctl (Roles rs) clazz method data h) = Inl err \<longleftrightarrow>
         (\<exists>pre it post. rs = pre @ it # post \<and>
            (\<forall>x\<in>set pre. \<exists>b. fst (denies require ctl x clazz method data h) = Inr b) \<and>
            fst (denies require ctl it clazz method data h) = Inl err) \<or>
         (\<forall>x\<in>set rs. fst (denies require ctl x clazz method data h) = Inr False) \<and>
         (\<exists>pre it post. rs = pre @ it # post \<and>
            (\<forall>x\<in>set pre. \<exists>b. fst (permits require ctl x clazz method data h) = Inr b) \<and>
            fst (permits require ctl it clazz method data h) = Inl err))"
  proof
    assume nf: "no_flags ctl"
    let ?D = "\<lambda>it. fst (denies require ctl it clazz method data h)"
    let ?P = "\<lambda>it. fst (permits require ctl it clazz method data h)"
    have dm: "denies_map require ctl rs clazz method data h = (collect ?D rs, h)"
      by (rule denies_map_no_flags[OF nf])
    have pm: "permits_map require ctl rs clazz method data h = (collect ?P rs, h)"
      by (rule permits_map_no_flags[OF nf])
    have a: "fst (denies require ctl (Roles rs) clazz method data h) = Inl err \<longleftrightarrow>
        collect ?D rs = Inl err"
      by (simp add: dm split: sum.splits)
    have b: "fst (permits require ctl (Roles rs) clazz method data h) = Inl err \<longleftrightarrow>
        collect ?D rs = Inl err \<or>
        (\<exists>ds. collect ?D rs = Inr ds \<and> True \<notin> set ds) \<and> collect ?P rs = Inl err"
      by (auto simp: dm pm split: sum.splits if_splits)
    show "(fst (denies require ctl (Roles rs) clazz method data h) = Inl err \<longleftrightarrow>
         (\<exists>pre it post. rs = pre @ it # post \<and>
            (\<forall>x\<in>set pre. \<exists>b. fst (denies require ctl x clazz method data h) = Inr b) \<and>
            fst (denies require ctl it clazz method data h) = Inl err)) \<and>
      (fst (permits require ctl (Roles rs) clazz method data h) = Inl err \<longleftrightarrow>
         (\<exists>pre it post. rs = pre @ it # post \<and>
            (\<forall>x\<in>set pre. \<exists>b. fst (denies require ctl x clazz method data h) = Inr b) \<and>
            fst (denies require ctl it clazz method data h) = Inl err) \<or>
         (\<forall>x\<in>set rs. fst (denies require ctl x clazz method data h) = Inr False) \<and>
         (\<exists>pre it post. rs = pre @ it # post \<and>
            (\<forall>x\<in>set pre. \<exists>b. fst (permits require ctl x clazz method data h) = Inr b) \<and>
            fst (permits require ctl it clazz method data h) = Inl err))"
      unfolding a b collect_Inl collect_no_True by simp
  qed
  from 1 2 3 4 5 6 show ?thesis by (intro conjI)
qed

theorem strategy_not_callable_error_counterexample:
  "fst (denies true_modules (constructor (Some by_reference)) (Role ''A'') ''Foo'' ''bar'' ()
     fresh) = Inl E_STRATEGY_NOT_A_FUNCTION \<and>
   fst (u_findEntries (constructor (Some by_reference)) ''A'' ''Foo'' ''bar'' fresh)
     = [Some (entry_for 0 ''A'' ''Foo'' ''bar'' (JString ''./strategy''))] \<and>
   resolve true_modules (strategy (entry_for 0 ''A'' ''Foo'' ''bar'' (JString ''./strategy'')))
     = (Inr (JBoolean True) :: unit + (unit, unit) strategy)"
  by (simp add: controller_defs example_defs)

theorem strategy_not_callable_error_witness:
  "u_interrogate no_modules
     [Some (entry_for 0 ''A'' ''Foo'' ''bar'' (JBoolean False)),
      Some (entry_for 1 ''A'' ''Foo'' ''bar'' JOther)]
     ''A'' ''Foo'' ''bar'' () True = Inl E_STRATEGY_NOT_A_FUNCTION \<and>
   u_interrogate true_modules
     [Some (entry_for 0 ''A'' ''Foo'' ''bar'' (JString ''./strategy''))]
     ''A'' ''Foo'' ''bar'' () False = Inl E_STRATEGY_NOT_A_FUNCTION"
proof -
  have "[Some (entry_for 0 ''A'' ''Foo'' ''bar'' (JBoolean False)),
         Some (entry_for 1 ''A'' ''Foo'' ''bar'' (JOther :: (unit, unit) strategy))] =
        [Some (entry_for 0 ''A'' ''Foo'' ''bar'' (JBoolean False))] @
        Some (entry_for 1 ''A'' ''Foo'' ''bar'' JOther) # [] \<and>
      (\<forall>x\<in>set [Some (entry_for 0 ''A'' ''Foo'' ''bar'' (JBoolean False))].
         examine no_modules x ''A'' ''Foo'' ''bar'' () True = Continue) \<and>
      \<not> is_boolean (strategy (entry_for 1 ''A'' ''Foo'' ''bar'' (JOther :: (unit, unit) strategy))) \<and>
      (\<exists>v. resolve no_modules (strategy (entry_for 1 ''A'' ''Foo'' ''bar'' JOther)) = Inr v \<and>
           \<not> is_function v)"
    by (simp add: examine_def resolve_def entry_for_def)
  then have a: "\<exists>pre e post.
      [Some (entry_for 0 ''A'' ''Foo'' ''bar'' (JBoolean False)),
       Some (entry_for 1 ''A'' ''Foo'' ''bar'' (JOther :: (unit, unit) strategy))] = pre @ Some e # post \<and>
      (\<forall>x\<in>set pre. examine no_modules x ''A'' ''Foo'' ''bar'' () True = Continue) \<and>
      \<not> is_boolean (strategy e) \<and>
      (\<exists>v. resolve no_modules (strategy e) = Inr v \<and> \<not> is_function v)"
    by (intro exI)
  have "[Some (entry_for 0 ''A'' ''Foo'' ''bar'' (JString ''./strategy'' :: (unit, unit) strategy))] =
        [] @ Some (entry_for 0 ''A'' ''Foo'' ''bar'' (JString ''./strategy'')) # [] \<and>
      (\<forall>x\<in>set []. examine true_modules x ''A'' ''Foo'' ''bar'' () False = Continue) \<and>
      \<not> is_boolean (strategy (entry_for 0 ''A'' ''Foo'' ''bar''
          (JString ''./strategy'' :: (unit, unit) strategy))) \<and>
      (\<exists>v. resolve true_modules (strategy (entry_for 0 ''A'' ''Foo'' ''bar''
          (JString ''./strategy'' :: (unit, unit) strategy))) = Inr v \<and> \<not> is_function v)"
    by (simp add: resolve_def entry_for_def true_modules_def)
  then have b: "\<exists>pre e post.
      [Some (entry_for 0 ''A'' ''Foo'' ''bar'' (JString ''./strategy'' :: (unit, unit) strategy))]
        = pre @ Some e # post \<and>
      (\<forall>x\<in>set pre. examine true_modules x ''A'' ''Foo'' ''bar'' () False = Continue) \<and>
      \<not> is_boolean (strategy e) \<and>
      (\<exists>v. resolve true_modules (strategy e) = Inr v \<and> \<not> is_function v)"
    by (intro exI)
  note A = strategy_not_callable_error[of no_modules
      "[Some (entry_for 0 ''A'' ''Foo'' ''bar'' (JBoolean False)),
        Some (entry_for 1 ''A'' ''Foo'' ''bar'' JOther)]"
      "''A''" "''Foo''" "''bar''" "()" True, THEN conjunct1, THEN iffD2, OF a]
  note B = strategy_not_callable_error[of true_modules
      "[Some (entry_for 0 ''A'' ''Foo'' ''bar'' (JString ''./strategy''))]"
      "''A''" "''Foo''" "''bar''" "()" False, THEN conjunct1, THEN iffD2, OF b]
  from A B show ?thesis by (rule conjI)
qed

text \<open>
  C9. Only a literal \<^verbatim>\<open>false\<close> denies. Every entry matched from the state \<open>h\<close> has a boolean
  strategy or a function strategy that returns for the request. Then \<^verbatim>\<open>denies\<close> for a single
  role returns \<^verbatim>\<open>true\<close> exactly when the first matched entry that is a literal \<^verbatim>\<open>false\<close> or a
  function returning \<^verbatim>\<open>false\<close> exists and is a literal \<^verbatim>\<open>false\<close>, and it returns \<^verbatim>\<open>false\<close>
  otherwise. So \<^verbatim>\<open>denies\<close> returns \<^verbatim>\<open>true\<close> only if a literal \<^verbatim>\<open>false\<close> is among the matched
  entries, and a function returning \<^verbatim>\<open>false\<close> with no literal \<^verbatim>\<open>false\<close> before it makes
  \<^verbatim>\<open>denies\<close> return \<^verbatim>\<open>false\<close> whatever comes after it.
\<close>

theorem only_literal_false_denies:
  assumes pure: "\<forall>e. Some e \<in> set (fst (u_findEntries ctl role clazz method h)) \<longrightarrow>
      is_boolean (strategy e) \<or>
      (\<exists>f v. strategy e = JFunction f \<and> f role clazz method data = Inr v)"
  shows "(fst (denies require ctl (Role role) clazz method data h) = Inr True \<longleftrightarrow>
           (\<exists>e. find (\<lambda>it. case it of None \<Rightarrow> False
                      | Some e \<Rightarrow> (case strategy e of JBoolean b \<Rightarrow> \<not> b
                          | JFunction f \<Rightarrow> f role clazz method data = Inr False
                          | _ \<Rightarrow> False))
                   (fst (u_findEntries ctl role clazz method h)) = Some (Some e) \<and>
                strategy e = JBoolean False)) \<and>
         (fst (denies require ctl (Role role) clazz method data h) = Inr True \<or>
          fst (denies require ctl (Role role) clazz method data h) = Inr False) \<and>
         (fst (denies require ctl (Role role) clazz method data h) = Inr True \<longrightarrow>
            (\<exists>e. Some e \<in> set (fst (u_findEntries ctl role clazz method h)) \<and>
                 strategy e = JBoolean False)) \<and>
         (\<forall>pre e f post.
            fst (u_findEntries ctl role clazz method h) = pre @ Some e # post \<and>
            strategy e = JFunction f \<and> f role clazz method data = Inr False \<and>
            (\<forall>e'. Some e' \<in> set pre \<longrightarrow> strategy e' \<noteq> JBoolean False) \<longrightarrow>
            fst (denies require ctl (Role role) clazz method data h) = Inr False)"
proof -
  let ?es = "fst (u_findEntries ctl role clazz method h)"
  have all: "\<forall>it\<in>set ?es. \<exists>e. it = Some e \<and>
      (is_boolean (strategy e) \<or>
       (\<exists>f v. strategy e = JFunction f \<and> f role clazz method data = Inr v))"
  proof
    fix it assume it: "it \<in> set ?es"
    then obtain e where e: "it = Some e" using findEntries_Some by blast
    with it pure have "is_boolean (strategy e) \<or>
       (\<exists>f v. strategy e = JFunction f \<and> f role clazz method data = Inr v)" by simp
    with e show "\<exists>e. it = Some e \<and>
      (is_boolean (strategy e) \<or>
       (\<exists>f v. strategy e = JFunction f \<and> f role clazz method data = Inr v))" by simp
  qed
  have main: "fst (denies require ctl (Role role) clazz method data h) =
      Inr (\<exists>e. find (\<lambda>it. case it of None \<Rightarrow> False
                      | Some e \<Rightarrow> (case strategy e of JBoolean b \<Rightarrow> \<not> b
                          | JFunction f \<Rightarrow> f role clazz method data = Inr False
                          | _ \<Rightarrow> False)) ?es = Some (Some e) \<and>
                strategy e = JBoolean False)"
    using deny_mode_first_decisive[OF all] by (simp add: denies_Role_fst u_denies_def del: denies.simps)
  have 1: "fst (denies require ctl (Role role) clazz method data h) = Inr True \<longleftrightarrow>
           (\<exists>e. find (\<lambda>it. case it of None \<Rightarrow> False
                      | Some e \<Rightarrow> (case strategy e of JBoolean b \<Rightarrow> \<not> b
                          | JFunction f \<Rightarrow> f role clazz method data = Inr False
                          | _ \<Rightarrow> False)) ?es = Some (Some e) \<and>
                strategy e = JBoolean False)"
    unfolding main by simp
  have 2: "fst (denies require ctl (Role role) clazz method data h) = Inr True \<or>
          fst (denies require ctl (Role role) clazz method data h) = Inr False"
    unfolding main by auto
  have 3: "fst (denies require ctl (Role role) clazz method data h) = Inr True \<longrightarrow>
            (\<exists>e. Some e \<in> set ?es \<and> strategy e = JBoolean False)"
    using deny_mode_True_literal[of require ?es role clazz "method" "data"]
    by (simp add: denies_Role_fst u_denies_def del: denies.simps)
  have 4: "\<forall>pre e f post.
            ?es = pre @ Some e # post \<and>
            strategy e = JFunction f \<and> f role clazz method data = Inr False \<and>
            (\<forall>e'. Some e' \<in> set pre \<longrightarrow> strategy e' \<noteq> JBoolean False) \<longrightarrow>
            fst (denies require ctl (Role role) clazz method data h) = Inr False"
  proof (intro allI impI, elim conjE)
    fix pre e f post
    assume eq: "?es = pre @ Some e # post" and f: "strategy e = JFunction f"
      "f role clazz method data = Inr False"
      and nf: "\<forall>e'. Some e' \<in> set pre \<longrightarrow> strategy e' \<noteq> JBoolean False"
    have "\<forall>it\<in>set pre. \<exists>e. it = Some e \<and> strategy e \<noteq> JBoolean False \<and>
             (is_boolean (strategy e) \<or>
              (\<exists>f v. strategy e = JFunction f \<and> f role clazz method data = Inr v))"
    proof
      fix it assume "it \<in> set pre"
      with eq have "it \<in> set ?es" by simp
      with all obtain e' where e': "it = Some e'" "is_boolean (strategy e') \<or>
              (\<exists>f v. strategy e' = JFunction f \<and> f role clazz method data = Inr v)" by auto
      with nf \<open>it \<in> set pre\<close> have "strategy e' \<noteq> JBoolean False" by simp
      with e' show "\<exists>e. it = Some e \<and> strategy e \<noteq> JBoolean False \<and>
             (is_boolean (strategy e) \<or>
              (\<exists>f v. strategy e = JFunction f \<and> f role clazz method data = Inr v))" by simp
    qed
    from deny_mode_shield[OF this f, of require post] eq
    show "fst (denies require ctl (Role role) clazz method data h) = Inr False"
      by (simp add: denies_Role_fst u_denies_def del: denies.simps)
  qed
  from 1 2 3 4 show ?thesis by (intro conjI)
qed

theorem only_literal_false_denies_witness:
  "fst (denies no_modules (constructor (Some cowboy_policy)) (Role ''Cowboy'') ''Foo'' ''bar'' ()
     fresh) = Inr True \<and>
   fst (denies no_modules (constructor (Some custom_then_denied)) (Role ''Teller'')
     ''Account'' ''close'' () fresh) = Inr False"
proof -
  have c: "fst (u_findEntries (constructor (Some cowboy_policy)) ''Cowboy'' ''Foo'' ''bar'' fresh)
      = cowboy_policy"
    by (simp add: controller_defs example_defs)
  have t: "fst (u_findEntries (constructor (Some custom_then_denied)) ''Teller'' ''Account''
      ''close'' fresh) = custom_then_denied"
    by (simp add: controller_defs example_defs)
  have p1: "\<forall>e. Some e \<in> set (fst (u_findEntries (constructor (Some cowboy_policy))
        ''Cowboy'' ''Foo'' ''bar'' fresh)) \<longrightarrow>
      is_boolean (strategy e) \<or>
      (\<exists>f v. strategy e = JFunction f \<and> f ''Cowboy'' ''Foo'' ''bar'' () = Inr v)"
    unfolding c by (auto simp: cowboy_policy_def entry_for_def)
  have p2: "\<forall>e. Some e \<in> set (fst (u_findEntries (constructor (Some custom_then_denied))
        ''Teller'' ''Account'' ''close'' fresh)) \<longrightarrow>
      is_boolean (strategy e) \<or>
      (\<exists>f v. strategy e = JFunction f \<and> f ''Teller'' ''Account'' ''close'' () = Inr v)"
    unfolding t by (auto simp: custom_then_denied_def custom_entry_def entry_for_def
        manager_or_owner_def)
  note T1 = only_literal_false_denies[where require = no_modules, OF p1, THEN conjunct1]
  note T2 = only_literal_false_denies[where require = no_modules, OF p2, THEN conjunct1]
  have 1: "fst (denies no_modules (constructor (Some cowboy_policy)) (Role ''Cowboy'')
     ''Foo'' ''bar'' () fresh) = Inr True"
    unfolding T1 c by (simp add: cowboy_policy_def entry_for_def)
  have "fst (denies no_modules (constructor (Some custom_then_denied)) (Role ''Teller'')
     ''Account'' ''close'' () fresh) \<noteq> Inr True"
    unfolding T2 t
    by (simp add: custom_then_denied_def custom_entry_def entry_for_def manager_or_owner_def)
  moreover from only_literal_false_denies[where require = no_modules, OF p2]
  have "fst (denies no_modules (constructor (Some custom_then_denied)) (Role ''Teller'')
      ''Account'' ''close'' () fresh) = Inr True \<or>
    fst (denies no_modules (constructor (Some custom_then_denied)) (Role ''Teller'')
      ''Account'' ''close'' () fresh) = Inr False" by blast
  ultimately have 2: "fst (denies no_modules (constructor (Some custom_then_denied))
     (Role ''Teller'') ''Account'' ''close'' () fresh) = Inr False" by blast
  from 1 2 show ?thesis by (rule conjI)
qed




end
